theory Spec2Isabelle
  imports Main "HOL-Library.Word" "HOL-Library.Sublist" "HOL-Library.AList"
begin

section \<open>JavaScript values as the ACP service sees them\<close>

text \<open>
  The service (\<^verbatim>\<open>AcpService\<close>) receives whatever \<^verbatim>\<open>JSON.parse\<close> returns and
  inspects it with the \<^verbatim>\<open>in\<close> operator, property reads, truthiness tests, template
  literals and \<^verbatim>\<open>parseInt\<close>. A parsed value is a \<open>json\<close>; the result of a property
  read is a \<open>json option\<close>, where \<open>None\<close> is \<^verbatim>\<open>undefined\<close>.

  A number is carried as its decimal rendering (what \<^verbatim>\<open>String(n)\<close> returns): the
  code only ever interpolates a number into a key, hands it to \<^verbatim>\<open>parseInt\<close> or tests
  its truthiness, and each of these is a function of that rendering. An object is the
  list of its own properties in insertion order; a parsed object has distinct keys, and
  a lookup takes the first binding.
\<close>

type_synonym jnumber = string

datatype json =
    JNull
  | JBool bool
  | JNum jnumber
  | JStr string
  | JArr "json list"
  | JObj "(string \<times> json) list"

type_synonym jsval = "json option"

text \<open>
  The errors that travel as \<^verbatim>\<open>Error\<close> objects: the ones the service creates, the
  one a failed stream write reports, the \<^verbatim>\<open>TypeError\<close> the runtime throws, and the
  \<^verbatim>\<open>ERR_UNHANDLED_ERROR\<close> of an \<^verbatim>\<open>EventEmitter\<close> that is asked to emit
  \<^verbatim>\<open>'error'\<close> and has no listener for it.
\<close>

datatype js_error =
    SessionNotAvailable
  | SessionDisposed
  | RequestTimedOut string nat
  | AgentError string
  | WriteError string
  | SpawnThrew string
  | TypeError
  | UnhandledError

text \<open>
  \<^verbatim>\<open>k in v\<close>. On a primitive the operator throws a \<^verbatim>\<open>TypeError\<close>. The handler asks
  for \<^verbatim>\<open>id\<close>, \<^verbatim>\<open>result\<close>, \<^verbatim>\<open>error\<close> and \<^verbatim>\<open>method\<close> only; neither
  \<^verbatim>\<open>Object.prototype\<close> nor \<^verbatim>\<open>Array.prototype\<close> has a property of these names,
  so the answer is whether the object has the key itself, and \<^verbatim>\<open>false\<close> on an array.
\<close>

fun js_in :: "string \<Rightarrow> json \<Rightarrow> js_error + bool" where
  "js_in k (JObj ps) = Inr (map_of ps k \<noteq> None)"
| "js_in k (JArr xs) = Inr False"
| "js_in k v = Inl TypeError"

text \<open>
  \<^verbatim>\<open>v.k\<close> for the names the service reads (\<^verbatim>\<open>id\<close>, \<^verbatim>\<open>result\<close>, \<^verbatim>\<open>error\<close>,
  \<^verbatim>\<open>method\<close>, \<^verbatim>\<open>params\<close>, \<^verbatim>\<open>message\<close>, \<^verbatim>\<open>protocolVersion\<close>,
  \<^verbatim>\<open>capabilities\<close>): a read from \<^verbatim>\<open>undefined\<close> or \<^verbatim>\<open>null\<close> throws, a read from
  any other primitive or from an array gives \<^verbatim>\<open>undefined\<close>.
\<close>

fun js_get :: "jsval \<Rightarrow> string \<Rightarrow> js_error + jsval" where
  "js_get None k = Inl TypeError"
| "js_get (Some JNull) k = Inl TypeError"
| "js_get (Some (JObj ps)) k = Inr (map_of ps k)"
| "js_get (Some v) k = Inr None"

text \<open>The same read where the receiver is known to be an object or an array.\<close>

fun js_prop :: "json \<Rightarrow> string \<Rightarrow> jsval" where
  "js_prop (JObj ps) k = map_of ps k"
| "js_prop v k = None"

fun truthy :: "jsval \<Rightarrow> bool" where
  "truthy None = False"
| "truthy (Some JNull) = False"
| "truthy (Some (JBool b)) = b"
| "truthy (Some (JNum r)) = (r \<noteq> ''0'')"
| "truthy (Some (JStr s)) = (s \<noteq> [])"
| "truthy (Some (JArr xs)) = True"
| "truthy (Some (JObj ps)) = True"

fun join_comma :: "string list \<Rightarrow> string" where
  "join_comma [] = []"
| "join_comma [x] = x"
| "join_comma (x # y # ys) = x @ '','' @ join_comma (y # ys)"

text \<open>
  \<^verbatim>\<open>ToString\<close>, as a template literal, \<^verbatim>\<open>parseInt\<close> and \<^verbatim>\<open>new Error\<close> apply it.
  \<open>None\<close> is a thrown \<^verbatim>\<open>TypeError\<close>: an object that carries a key \<^verbatim>\<open>toString\<close>
  of its own (never callable in a parsed value) cannot be converted. An array joins its
  elements with commas, \<^verbatim>\<open>null\<close> elements as the empty string.
\<close>

fun js_to_string :: "json \<Rightarrow> string option" where
  "js_to_string JNull = Some ''null''"
| "js_to_string (JBool b) = Some (if b then ''true'' else ''false'')"
| "js_to_string (JNum r) = Some r"
| "js_to_string (JStr s) = Some s"
| "js_to_string (JArr xs) =
     map_option join_comma
       (those (map (\<lambda>x. if x = JNull then Some [] else js_to_string x) xs))"
| "js_to_string (JObj ps) =
     (if map_of ps ''toString'' \<noteq> None then None else Some ''[object Object]'')"

fun js_string_of :: "jsval \<Rightarrow> js_error + string" where
  "js_string_of None = Inr ''undefined''"
| "js_string_of (Some v) = (case js_to_string v of None \<Rightarrow> Inl TypeError | Some t \<Rightarrow> Inr t)"

text \<open>
  \<^verbatim>\<open>new Error(m)\<close>: the message is the empty string when \<^verbatim>\<open>m\<close> is
  \<^verbatim>\<open>undefined\<close>, and \<^verbatim>\<open>ToString(m)\<close> otherwise.
\<close>

fun new_Error :: "jsval \<Rightarrow> js_error + js_error" where
  "new_Error None = Inr (AgentError [])"
| "new_Error (Some v) = (case js_to_string v of None \<Rightarrow> Inl TypeError | Some t \<Rightarrow> Inr (AgentError t))"

subsection \<open>parseInt\<close>

text \<open>
  \<^verbatim>\<open>parseInt(s)\<close> with no radix: leading white space is skipped, a sign is read, a
  prefix \<^verbatim>\<open>0x\<close> selects radix 16, and the longest run of digits is the value;
  \<open>None\<close> is \<^verbatim>\<open>NaN\<close>. The value is kept exact: the service only compares it with 1.
\<close>

definition str_ws :: "char \<Rightarrow> bool" where
  "str_ws c = (of_char c \<in> {9, 10, 11, 12, 13, 32, 160 :: nat})"

definition digit_of :: "nat \<Rightarrow> char \<Rightarrow> nat option" where
  "digit_of radix c =
     (let n = (of_char c :: nat);
          d = (if 48 \<le> n \<and> n \<le> 57 then Some (n - 48)
               else if 97 \<le> n \<and> n \<le> 122 then Some (n - 87)
               else if 65 \<le> n \<and> n \<le> 90 then Some (n - 55)
               else None)
      in case d of None \<Rightarrow> None | Some v \<Rightarrow> if v < radix then Some v else None)"

fun digits_value :: "nat \<Rightarrow> nat \<Rightarrow> string \<Rightarrow> nat" where
  "digits_value radix acc [] = acc"
| "digits_value radix acc (c # cs) =
     (case digit_of radix c of
        None \<Rightarrow> acc
      | Some d \<Rightarrow> digits_value radix (acc * radix + d) cs)"

definition parseInt :: "string \<Rightarrow> int option" where
  "parseInt inp =
     (let s = dropWhile str_ws inp;
          neg = (take 1 s = ''-'');
          s1 = (if take 1 s = ''-'' \<or> take 1 s = ''+'' then drop 1 s else s);
          hex = (take 2 s1 = ''0x'' \<or> take 2 s1 = ''0X'');
          radix = (if hex then 16 else 10);
          s2 = (if hex then drop 2 s1 else s1)
      in case s2 of
           [] \<Rightarrow> None
         | c # cs \<Rightarrow>
             (case digit_of radix c of
                None \<Rightarrow> None
              | Some d \<Rightarrow>
                  Some ((if neg then - 1 else 1) * int (digits_value radix 0 s2))))"

text \<open>\<^verbatim>\<open>parseInt(s) < 1\<close>; a comparison with \<^verbatim>\<open>NaN\<close> is false.\<close>

definition parseInt_below_1 :: "string \<Rightarrow> bool" where
  "parseInt_below_1 s = (case parseInt s of None \<Rightarrow> False | Some n \<Rightarrow> n < 1)"

text \<open>The decimal rendering of a counter or of \<^verbatim>\<open>Date.now()\<close> in a template literal.\<close>

definition digit_char :: "nat \<Rightarrow> char" where
  "digit_char d = ''0123456789'' ! d"

fun show_nat :: "nat \<Rightarrow> string" where
  "show_nat n =
     (if n < 10 then [digit_char n]
      else show_nat (n div 10) @ [digit_char (n mod 10)])"

declare show_nat.simps [simp del]

section \<open>The stdout stream: decoding and framing\<close>

text \<open>
  A \<^verbatim>\<open>data\<close> event carries a \<^verbatim>\<open>Buffer\<close> of bytes; the handler appends
  \<^verbatim>\<open>chunk.toString('utf8')\<close> to its text buffer. JavaScript text is a sequence of
  UTF-16 code units, and \<^verbatim>\<open>length\<close> counts them.
\<close>

type_synonym byte = "8 word"
type_synonym jstext = "nat list"

text \<open>
  The decoder of \<^verbatim>\<open>Buffer.toString('utf8')\<close>: the state is the code point under
  construction, the continuation bytes seen and needed, and the bounds of the next
  continuation byte. An ill-formed or unfinished sequence becomes U+FFFD.
\<close>

type_synonym utf8_state = "nat \<times> nat \<times> nat \<times> nat \<times> nat"

definition utf8_init :: utf8_state where
  "utf8_init = (0, 0, 0, 0x80, 0xBF)"

definition utf8_lead :: "nat \<Rightarrow> nat list \<times> utf8_state" where
  "utf8_lead b =
     (if b \<le> 0x7F then ([b], utf8_init)
      else if 0xC2 \<le> b \<and> b \<le> 0xDF then ([], (b mod 32, 0, 1, 0x80, 0xBF))
      else if 0xE0 \<le> b \<and> b \<le> 0xEF then
        ([], (b mod 16, 0, 2, (if b = 0xE0 then 0xA0 else 0x80), (if b = 0xED then 0x9F else 0xBF)))
      else if 0xF0 \<le> b \<and> b \<le> 0xF4 then
        ([], (b mod 8, 0, 3, (if b = 0xF0 then 0x90 else 0x80), (if b = 0xF4 then 0x8F else 0xBF)))
      else ([0xFFFD], utf8_init))"

definition utf8_step :: "utf8_state \<Rightarrow> nat \<Rightarrow> nat list \<times> utf8_state" where
  "utf8_step st b =
     (case st of (cp, seen, needed, lo, hi) \<Rightarrow>
        if needed = 0 then utf8_lead b
        else if b < lo \<or> hi < b then (0xFFFD # fst (utf8_lead b), snd (utf8_lead b))
        else if seen + 1 = needed then ([cp * 64 + b mod 64], utf8_init)
        else ([], (cp * 64 + b mod 64, seen + 1, needed, 0x80, 0xBF)))"

fun utf8_run :: "utf8_state \<Rightarrow> byte list \<Rightarrow> nat list" where
  "utf8_run st [] = (case st of (cp, seen, needed, lo, hi) \<Rightarrow> if needed = 0 then [] else [0xFFFD])"
| "utf8_run st (b # bs) = fst (utf8_step st (unat b)) @ utf8_run (snd (utf8_step st (unat b))) bs"

definition utf16_units :: "nat \<Rightarrow> nat list" where
  "utf16_units c =
     (if c < 0x10000 then [c]
      else [0xD800 + (c - 0x10000) div 0x400, 0xDC00 + (c - 0x10000) mod 0x400])"

definition buffer_toString :: "byte list \<Rightarrow> jstext" where
  "buffer_toString bytes = concat (map utf16_units (utf8_run utf8_init bytes))"

text \<open>\<^verbatim>\<open>s.split('\n')\<close>: the segments between line feeds, never an empty list.\<close>

fun split_nl :: "jstext \<Rightarrow> jstext list" where
  "split_nl [] = [[]]"
| "split_nl (c # cs) =
     (if c = 10 then [] # split_nl cs
      else (case split_nl cs of [] \<Rightarrow> [[c]] | l # ls \<Rightarrow> (c # l) # ls))"

text \<open>\<^verbatim>\<open>s.trim()\<close> strips white space and line terminators from both ends.\<close>

definition js_space :: "nat \<Rightarrow> bool" where
  "js_space u =
     (u \<in> {0x09, 0x0A, 0x0B, 0x0C, 0x0D, 0x20, 0xA0, 0x1680, 0x2028, 0x2029, 0x202F,
            0x205F, 0x3000, 0xFEFF}
      \<or> (0x2000 \<le> u \<and> u \<le> 0x200A))"

definition js_trim :: "jstext \<Rightarrow> jstext" where
  "js_trim t = rev (dropWhile js_space (rev (dropWhile js_space t)))"

text \<open>
  The framing of a text: the segments before the last line feed are the complete lines,
  the segment after it is the leftover (\<^verbatim>\<open>lines.pop()\<close>).
\<close>

definition frame :: "jstext \<Rightarrow> jstext list \<times> jstext" where
  "frame t = (butlast (split_nl t), last (split_nl t))"

text \<open>
  One \<^verbatim>\<open>data\<close> event of the framer: the chunk is decoded and appended to the
  buffer, the text is split, the complete lines are returned and the leftover is the
  new buffer (\<^verbatim>\<open>buffer = lines.pop() || ''\<close>).
\<close>

definition feed :: "jstext \<Rightarrow> byte list \<Rightarrow> jstext list \<times> jstext" where
  "feed buf chunk = frame (buf @ buffer_toString chunk)"

fun feed_all :: "jstext \<Rightarrow> byte list list \<Rightarrow> jstext list \<times> jstext" where
  "feed_all buf [] = ([], buf)"
| "feed_all buf (c # cs) =
     (case feed buf c of (ls, b) \<Rightarrow>
        (case feed_all b cs of (ls', b') \<Rightarrow> (ls @ ls', b')))"

section \<open>The service state\<close>

datatype status = Initializing | Ready | Error | Exited

text \<open>A line written to a subprocess's stdin: \<^verbatim>\<open>JSON.stringify(message) + '\n'\<close>.\<close>

datatype wire =
    Request nat string jsval
  | Notification string jsval

text \<open>
  A \<^verbatim>\<open>ChildProcess\<close>. \<open>stdin\<close> is \<open>None\<close> when the process has no stdin stream,
  and otherwise the lines written to it so far. \<open>killed\<close> is the object's flag of the
  same name (a signal was sent by \<^verbatim>\<open>kill()\<close>), \<open>exited\<close> says that the process has
  terminated, \<open>signals\<close> counts the signals delivered. \<open>wired\<close> is the session id that
  the handlers attached by \<^verbatim>\<open>wireStdio\<close> have captured, and \<open>buffer\<close> the text
  buffer of the stdout handler.
\<close>

record proc =
  command :: string
  args :: "string list"
  proc_cwd :: string
  stdin :: "wire list option"
  killed :: bool
  exited :: bool
  signals :: nat
  wired :: "string option"
  buffer :: jstext

record session =
  sid :: string
  providerId :: string
  workspaceId :: string
  cwd :: string
  process :: nat
  status :: status
  protocolVersion :: jsval
  capabilities :: jsval

text \<open>
  An entry of \<^verbatim>\<open>pendingRequests\<close>: the promise that \<^verbatim>\<open>resolve\<close> and
  \<^verbatim>\<open>reject\<close> settle, and the handle of the timeout timer.
\<close>

record pending =
  promise :: nat
  timeout :: nat

text \<open>A running timer of \<^verbatim>\<open>rpcCall\<close>, with what its callback has captured.\<close>

record timer =
  t_key :: string
  t_method :: string
  t_ms :: nat
  t_promise :: nat

datatype outcome = Resolved jsval | Rejected js_error

datatype ev_error = InvalidJson | ProcessError string

text \<open>
  What \<^verbatim>\<open>emit\<close> hands to the listeners: \<^verbatim>\<open>'notification'\<close> events of type
  \<^verbatim>\<open>notification\<close>, \<^verbatim>\<open>stderr\<close> and \<^verbatim>\<open>exit\<close>, and \<^verbatim>\<open>'error'\<close> events.
\<close>

datatype event =
    EvNotification string json
  | EvStderr string jstext
  | EvExit string "int option"
  | EvError string ev_error

fun event_name :: "event \<Rightarrow> string" where
  "event_name (EvNotification sessionId payload) = ''notification''"
| "event_name (EvStderr sessionId payload) = ''notification''"
| "event_name (EvExit sessionId code) = ''notification''"
| "event_name (EvError sessionId err) = ''error''"

text \<open>The lines of a session's log file, without their time stamps.\<close>

datatype log_line =
    LogStarted string
  | LogRequest string jsval
  | LogNotify string jsval
  | LogNotification string jsval
  | LogStderr jstext

record wstream =
  written :: "log_line list"
  ends :: nat

text \<open>The application log (\<^verbatim>\<open>log.info\<close>, \<^verbatim>\<open>log.warn\<close>, \<^verbatim>\<open>log.error\<close>).\<close>

datatype app_log =
    InfoInitialized string
  | InfoDisposed string
  | InfoExited string "int option" "string option"
  | WarnOversized string nat
  | ErrInvalidJson string jstext
  | ErrProcess string string
  | ErrLogWriter string string

text \<open>
  The three maps and the counter of the class, in insertion order as a JavaScript
  \<^verbatim>\<open>Map\<close> keeps them, and the objects they point to: the processes and the write
  streams by handle, the running timers, the calls of \<^verbatim>\<open>resolve\<close> and
  \<^verbatim>\<open>reject\<close> in the order they were made, the events handed to the listeners and
  the application log. Of the listeners that the class inherits from
  \<^verbatim>\<open>EventEmitter\<close> the state keeps how many are attached for \<^verbatim>\<open>'error'\<close>:
  \<^verbatim>\<open>new AcpService()\<close> has none.
\<close>

record service =
  sessions :: "(string \<times> session) list"
  pendingRequests :: "(string \<times> pending) list"
  requestIdCounter :: nat
  logWriters :: "(string \<times> nat) list"
  procs :: "(nat \<times> proc) list"
  streams :: "(nat \<times> wstream) list"
  timers :: "(nat \<times> timer) list"
  settled :: "(nat \<times> outcome) list"
  emitted :: "event list"
  applog :: "app_log list"
  error_listeners :: nat

definition empty_service :: service where
  "empty_service =
     \<lparr>sessions = [], pendingRequests = [], requestIdCounter = 0, logWriters = [],
      procs = [], streams = [], timers = [], settled = [], emitted = [], applog = [],
      error_listeners = 0\<rparr>"

text \<open>What the environment supplies to a call: the clock, the settings, the platform.\<close>

record env =
  now :: nat
  gemini_path :: "string option"
  win32 :: bool
  initializeMs :: nat
  promptMs :: nat
  app_version :: string
  spawn_throws :: "string option"
  log_setup_throws :: "string option"

record spawn_spec =
  spec_command :: string
  spec_args :: "string list option"

record new_session_args =
  a_providerId :: string
  a_workspaceId :: string
  a_cwd :: string
  a_spawnOverride :: "spawn_spec option"
  a_init :: jsval

datatype failure =
    ProviderNotFound string
  | UnsupportedProtocolVersion
  | InitializeFailed js_error
  | SpawnFailed js_error
  | SessionNotFound
  | SessionNotReady status
  | CallFailed js_error

datatype 'a reply = Success 'a | Failure failure

section \<open>The operations\<close>

subsection \<open>Small steps on the state\<close>

text \<open>
  A handler either returns, \<open>Inr s'\<close>, or throws: \<open>Inl (e, s')\<close> is the exception
  \<open>e\<close> thrown after the state has been brought to \<open>s'\<close>. \<open>state_after\<close> is the state
  it leaves behind in either case.
\<close>

definition state_after :: "(js_error \<times> service) + service \<Rightarrow> service" where
  "state_after r = (case r of Inl (e, s) \<Rightarrow> s | Inr s \<Rightarrow> s)"

text \<open>
  \<^verbatim>\<open>on('error', listener)\<close>, inherited from \<^verbatim>\<open>EventEmitter\<close>: the IPC layer
  calls it once on the exported instance when it registers its handlers.
\<close>

definition addListener_error :: "service \<Rightarrow> service" where
  "addListener_error s = s\<lparr>error_listeners := error_listeners s + 1\<rparr>"

text \<open>
  \<^verbatim>\<open>emit\<close>, inherited from \<^verbatim>\<open>EventEmitter\<close>. The listeners attached for the
  event's name are called with the payload and \<^verbatim>\<open>emit\<close> returns; the state records
  the event. The name \<^verbatim>\<open>'error'\<close> is special: with no listener attached for it
  \<^verbatim>\<open>emit\<close> throws, and nothing is recorded. The listeners themselves are not part of
  the service; they are taken to return, as the two the IPC layer attaches do.
\<close>

definition emit :: "event \<Rightarrow> service \<Rightarrow> (js_error \<times> service) + service" where
  "emit e s =
     (if event_name e = ''error'' \<and> error_listeners s = 0 then Inl (UnhandledError, s)
      else Inr (s\<lparr>emitted := emitted s @ [e]\<rparr>))"

definition app_logged :: "app_log \<Rightarrow> service \<Rightarrow> service" where
  "app_logged l s = s\<lparr>applog := applog s @ [l]\<rparr>"

definition settle :: "nat \<Rightarrow> outcome \<Rightarrow> service \<Rightarrow> service" where
  "settle p out s = s\<lparr>settled := settled s @ [(p, out)]\<rparr>"

definition clearTimeout :: "nat \<Rightarrow> service \<Rightarrow> service" where
  "clearTimeout h s = s\<lparr>timers := AList.delete h (timers s)\<rparr>"

definition delete_pending :: "string \<Rightarrow> service \<Rightarrow> service" where
  "delete_pending k s = s\<lparr>pendingRequests := AList.delete k (pendingRequests s)\<rparr>"

definition writeLog :: "string \<Rightarrow> log_line \<Rightarrow> service \<Rightarrow> service" where
  "writeLog sessionId m s =
     (case map_of (logWriters s) sessionId of
        None \<Rightarrow> s
      | Some w \<Rightarrow>
          s\<lparr>streams := AList.map_entry w (\<lambda>f. f\<lparr>written := written f @ [m]\<rparr>) (streams s)\<rparr>)"

definition stdin_write :: "nat \<Rightarrow> wire \<Rightarrow> service \<Rightarrow> service" where
  "stdin_write p w s =
     s\<lparr>procs := AList.map_entry p (\<lambda>pr. pr\<lparr>stdin := map_option (\<lambda>ws. ws @ [w]) (stdin pr)\<rparr>)
                  (procs s)\<rparr>"

text \<open>The stdin stream of a session's process, if the process has one.\<close>

definition stdin_of :: "service \<Rightarrow> session \<Rightarrow> wire list option" where
  "stdin_of s session =
     (case map_of (procs s) (process session) of None \<Rightarrow> None | Some pr \<Rightarrow> stdin pr)"

text \<open>The stdout handler of process \<open>p\<close> assigns to its \<^verbatim>\<open>buffer\<close> variable.\<close>

definition set_buffer :: "nat \<Rightarrow> jstext \<Rightarrow> service \<Rightarrow> service" where
  "set_buffer p b s = s\<lparr>procs := AList.map_entry p (\<lambda>x. x\<lparr>buffer := b\<rparr>) (procs s)\<rparr>"

text \<open>
  An assignment to a field of the session object that a closure has captured. The
  object is found through the registry and recognised by its process, which no other
  session object shares.
\<close>

definition update_session :: "string \<Rightarrow> nat \<Rightarrow> (session \<Rightarrow> session) \<Rightarrow> service \<Rightarrow> service" where
  "update_session sessionId p f s =
     s\<lparr>sessions := AList.map_entry sessionId (\<lambda>x. if process x = p then f x else x) (sessions s)\<rparr>"

subsection \<open>rpcCall, its timer and its write callback\<close>

text \<open>
  \<^verbatim>\<open>rpcCall\<close> returns a promise. \<open>Inl\<close> is the promise rejected on the spot
  (\<^verbatim>\<open>Session not available\<close>); \<open>Inr (i, s')\<close> is the pending promise of request
  \<open>i\<close>, which also names its timer. The key is \<^verbatim>\<open>`${sessionId}:${id}`\<close>.
\<close>

definition rpcCall ::
  "service \<Rightarrow> string \<Rightarrow> string \<Rightarrow> jsval \<Rightarrow> nat \<Rightarrow> js_error + (nat \<times> service)" where
  "rpcCall s sessionId method params timeoutMs =
     (case map_of (sessions s) sessionId of
        None \<Rightarrow> Inl SessionNotAvailable
      | Some session \<Rightarrow>
          (case stdin_of s session of
             None \<Rightarrow> Inl SessionNotAvailable
           | Some ws \<Rightarrow>
               (let i = requestIdCounter s + 1;
                    reqKey = sessionId @ '':'' @ show_nat i;
                    s1 = s\<lparr>requestIdCounter := i\<rparr>;
                    s2 = s1\<lparr>timers := AList.update i
                           \<lparr>t_key = reqKey, t_method = method, t_ms = timeoutMs, t_promise = i\<rparr>
                           (timers s1)\<rparr>;
                    s3 = s2\<lparr>pendingRequests :=
                           AList.update reqKey \<lparr>promise = i, timeout = i\<rparr> (pendingRequests s2)\<rparr>;
                    s4 = stdin_write (process session) (Request i method params) s3
                in Inr (i, writeLog sessionId (LogRequest method params) s4))))"

text \<open>
  The timer of request \<open>h\<close> expires. A timer that was cleared, or that has fired, is
  not among the running ones and its callback does not run.
\<close>

definition timer_fires :: "service \<Rightarrow> nat \<Rightarrow> service" where
  "timer_fires s h =
     (case map_of (timers s) h of
        None \<Rightarrow> s
      | Some t \<Rightarrow>
          settle (t_promise t) (Rejected (RequestTimedOut (t_method t) (t_ms t)))
            (delete_pending (t_key t) (s\<lparr>timers := AList.delete h (timers s)\<rparr>)))"

text \<open>The write callback of request \<open>i\<close> of a session reports an error.\<close>

definition rpcCall_write_failed :: "service \<Rightarrow> string \<Rightarrow> nat \<Rightarrow> string \<Rightarrow> service" where
  "rpcCall_write_failed s sessionId i err =
     settle i (Rejected (WriteError err))
       (delete_pending (sessionId @ '':'' @ show_nat i) (clearTimeout i s))"

definition rpcNotify :: "service \<Rightarrow> string \<Rightarrow> string \<Rightarrow> jsval \<Rightarrow> js_error + service" where
  "rpcNotify s sessionId method params =
     (case map_of (sessions s) sessionId of
        None \<Rightarrow> Inl SessionNotAvailable
      | Some session \<Rightarrow>
          (case stdin_of s session of
             None \<Rightarrow> Inl SessionNotAvailable
           | Some ws \<Rightarrow>
               Inr (writeLog sessionId (LogNotify method params)
                      (stdin_write (process session) (Notification method params) s))))"

subsection \<open>handleMessage\<close>

text \<open>
  The test of the first branch, \<^verbatim>\<open>'id' in msg && 'result' in msg || 'error' in msg\<close>,
  with the operators' precedence and short-circuit evaluation.
\<close>

definition response_test :: "json \<Rightarrow> js_error + bool" where
  "response_test msg =
     (case js_in ''id'' msg of
        Inl e \<Rightarrow> Inl e
      | Inr has_id \<Rightarrow>
          (case (if has_id then js_in ''result'' msg else Inr False) of
             Inl e \<Rightarrow> Inl e
           | Inr both \<Rightarrow> if both then Inr True else js_in ''error'' msg))"

text \<open>The test of the second branch, \<^verbatim>\<open>'method' in msg && !('id' in msg)\<close>.\<close>

definition notification_test :: "json \<Rightarrow> js_error + bool" where
  "notification_test msg =
     (case js_in ''method'' msg of
        Inl e \<Rightarrow> Inl e
      | Inr has_method \<Rightarrow>
          if has_method then
            (case js_in ''id'' msg of Inl e \<Rightarrow> Inl e | Inr has_id \<Rightarrow> Inr (\<not> has_id))
          else Inr False)"

definition handleMessage :: "service \<Rightarrow> string \<Rightarrow> json \<Rightarrow> (js_error \<times> service) + service" where
  "handleMessage s sessionId msg =
     (case response_test msg of
        Inl e \<Rightarrow> Inl (e, s)
      | Inr True \<Rightarrow>
          (case js_string_of (js_prop msg ''id'') of
             Inl e \<Rightarrow> Inl (e, s)
           | Inr idstr \<Rightarrow>
               (let reqKey = sessionId @ '':'' @ idstr in
                case map_of (pendingRequests s) reqKey of
                  None \<Rightarrow> Inr s
                | Some pending \<Rightarrow>
                    (let s1 = delete_pending reqKey (clearTimeout (timeout pending) s) in
                     if truthy (js_prop msg ''error'') then
                       (case js_get (js_prop msg ''error'') ''message'' of
                          Inl e \<Rightarrow> Inl (e, s1)
                        | Inr m \<Rightarrow>
                            (case new_Error m of
                               Inl e \<Rightarrow> Inl (e, s1)
                             | Inr err \<Rightarrow> Inr (settle (promise pending) (Rejected err) s1)))
                     else Inr (settle (promise pending) (Resolved (js_prop msg ''result'')) s1))))
      | Inr False \<Rightarrow>
          (case notification_test msg of
             Inl e \<Rightarrow> Inl (e, s)
           | Inr True \<Rightarrow>
               (case js_string_of (js_prop msg ''method'') of
                  Inl e \<Rightarrow> Inl (e, s)
                | Inr m \<Rightarrow>
                    emit (EvNotification sessionId msg)
                      (writeLog sessionId (LogNotification m (js_prop msg ''params'')) s))
           | Inr False \<Rightarrow> Inr s))"

subsection \<open>The handlers that wireStdio attaches\<close>

text \<open>
  \<^verbatim>\<open>JSON.parse\<close> is a parameter of the model: \<open>parse l\<close> is \<open>None\<close> when the
  parser throws on \<open>l\<close>, and the parsed value otherwise.

  The \<^verbatim>\<open>catch\<close> block of the loop body: it logs and emits \<^verbatim>\<open>'error'\<close>. An
  exception of that \<^verbatim>\<open>emit\<close> is thrown inside the \<^verbatim>\<open>catch\<close> block, so it leaves
  the loop and the handler.
\<close>

definition invalid_json :: "string \<Rightarrow> jstext \<Rightarrow> service \<Rightarrow> (js_error \<times> service) + service" where
  "invalid_json sessionId trimmed s =
     emit (EvError sessionId InvalidJson) (app_logged (ErrInvalidJson sessionId (take 200 trimmed)) s)"

text \<open>
  The guards of the loop body in front of the \<^verbatim>\<open>try\<close> block: a line is trimmed; an
  empty one is skipped, one longer than 65536 code units is reported and skipped, and
  any other is the text handed to \<^verbatim>\<open>JSON.parse\<close>.
\<close>

datatype line_fate = Blank | Oversized nat | Parsed jstext

definition line_fate :: "jstext \<Rightarrow> line_fate" where
  "line_fate line =
     (let trimmed = js_trim line in
      if trimmed = [] then Blank
      else if length trimmed > 65536 then Oversized (length trimmed)
      else Parsed trimmed)"

text \<open>One turn of the loop body. What \<^verbatim>\<open>handleMessage\<close> throws is caught.\<close>

definition handleLine ::
  "(jstext \<Rightarrow> json option) \<Rightarrow> string \<Rightarrow> jstext \<Rightarrow> service \<Rightarrow> (js_error \<times> service) + service" where
  "handleLine parse sessionId line s =
     (case line_fate line of
        Blank \<Rightarrow> Inr s
      | Oversized n \<Rightarrow> Inr (app_logged (WarnOversized sessionId n) s)
      | Parsed trimmed \<Rightarrow>
          (case parse trimmed of
             None \<Rightarrow> invalid_json sessionId trimmed s
           | Some msg \<Rightarrow>
               (case handleMessage s sessionId msg of
                  Inr s' \<Rightarrow> Inr s'
                | Inl (e, s') \<Rightarrow> invalid_json sessionId trimmed s')))"

text \<open>The loop over the lines: an exception that leaves the body ends it.\<close>

fun handleLines ::
  "(jstext \<Rightarrow> json option) \<Rightarrow> string \<Rightarrow> jstext list \<Rightarrow> service \<Rightarrow> (js_error \<times> service) + service" where
  "handleLines parse sessionId [] s = Inr s"
| "handleLines parse sessionId (line # rest) s =
     (case handleLine parse sessionId line s of
        Inl thrown \<Rightarrow> Inl thrown
      | Inr s' \<Rightarrow> handleLines parse sessionId rest s')"

text \<open>A \<^verbatim>\<open>data\<close> event on the stdout of process \<open>p\<close>.\<close>

definition on_stdout ::
  "(jstext \<Rightarrow> json option) \<Rightarrow> service \<Rightarrow> nat \<Rightarrow> byte list \<Rightarrow> (js_error \<times> service) + service" where
  "on_stdout parse s p chunk =
     (case map_of (procs s) p of
        None \<Rightarrow> Inr s
      | Some pr \<Rightarrow>
          (case wired pr of
             None \<Rightarrow> Inr s
           | Some sessionId \<Rightarrow>
               (case feed (buffer pr) chunk of
                  (ls, b) \<Rightarrow>
                    handleLines parse sessionId ls (set_buffer p b s))))"

text \<open>
  A \<^verbatim>\<open>data\<close> event on the stderr of process \<open>p\<close>. \<^verbatim>\<open>emit\<close> does not throw on
  a \<^verbatim>\<open>'notification'\<close> event, so the handler returns.
\<close>

definition on_stderr :: "service \<Rightarrow> nat \<Rightarrow> byte list \<Rightarrow> service" where
  "on_stderr s p chunk =
     (case map_of (procs s) p of
        None \<Rightarrow> s
      | Some pr \<Rightarrow>
          (case wired pr of
             None \<Rightarrow> s
           | Some sessionId \<Rightarrow>
               state_after
                 (emit (EvStderr sessionId (buffer_toString chunk))
                    (writeLog sessionId (LogStderr (buffer_toString chunk)) s))))"


subsection \<open>dispose\<close>

text \<open>
  \<^verbatim>\<open>kill()\<close> sends the signal and sets \<^verbatim>\<open>killed\<close>; on a process that has
  terminated it does nothing and returns \<^verbatim>\<open>false\<close>.
\<close>

definition proc_kill :: "proc \<Rightarrow> proc" where
  "proc_kill pr = (if exited pr then pr else pr\<lparr>killed := True, signals := signals pr + 1\<rparr>)"

definition kill_process :: "nat \<Rightarrow> service \<Rightarrow> service" where
  "kill_process p s =
     (case map_of (procs s) p of
        None \<Rightarrow> s
      | Some pr \<Rightarrow>
          if killed pr then s else s\<lparr>procs := AList.map_entry p proc_kill (procs s)\<rparr>)"

text \<open>
  The \<^verbatim>\<open>forEach\<close> over \<^verbatim>\<open>pendingRequests\<close>: an entry whose key starts with the
  session id has its timer cleared, is rejected and is deleted.
\<close>

fun reject_pending :: "string \<Rightarrow> (string \<times> pending) list \<Rightarrow> service \<Rightarrow> service" where
  "reject_pending sessionId [] s = s"
| "reject_pending sessionId ((reqId, pending) # rest) s =
     reject_pending sessionId rest
       (if prefix sessionId reqId then
          delete_pending reqId
            (settle (promise pending) (Rejected SessionDisposed)
               (clearTimeout (timeout pending) s))
        else s)"

definition close_writer :: "string \<Rightarrow> service \<Rightarrow> service" where
  "close_writer sessionId s =
     (case map_of (logWriters s) sessionId of
        None \<Rightarrow> s
      | Some w \<Rightarrow>
          s\<lparr>streams := AList.map_entry w (\<lambda>f. f\<lparr>ends := ends f + 1\<rparr>) (streams s),
            logWriters := AList.delete sessionId (logWriters s)\<rparr>)"

definition dispose :: "service \<Rightarrow> string \<Rightarrow> service" where
  "dispose s sessionId =
     (case map_of (sessions s) sessionId of
        None \<Rightarrow> s
      | Some session \<Rightarrow>
          (let s1 = kill_process (process session) s;
               s2 = reject_pending sessionId (pendingRequests s1) s1;
               s3 = close_writer sessionId s2;
               s4 = s3\<lparr>sessions := AList.delete sessionId (sessions s3)\<rparr>
           in app_logged (InfoDisposed sessionId) s4))"

text \<open>
  The process \<open>p\<close> terminates (\<^verbatim>\<open>exit\<close> event), or reports an error
  (\<^verbatim>\<open>error\<close> event). The \<^verbatim>\<open>exit\<close> handler emits a \<^verbatim>\<open>'notification'\<close>
  event, on which \<^verbatim>\<open>emit\<close> does not throw, and disposes the session; the
  \<^verbatim>\<open>error\<close> handler ends with \<^verbatim>\<open>emit('error', ...)\<close>.
\<close>

definition on_exit :: "service \<Rightarrow> nat \<Rightarrow> int option \<Rightarrow> string option \<Rightarrow> service" where
  "on_exit s p code signal =
     (let s0 = s\<lparr>procs := AList.map_entry p (\<lambda>x. x\<lparr>exited := True\<rparr>) (procs s)\<rparr> in
      case map_of (procs s) p of
        None \<Rightarrow> s
      | Some pr \<Rightarrow>
          (case wired pr of
             None \<Rightarrow> s0
           | Some sessionId \<Rightarrow>
               (case emit (EvExit sessionId code)
                       (update_session sessionId p (\<lambda>x. x\<lparr>status := Exited\<rparr>)
                          (app_logged (InfoExited sessionId code signal) s0)) of
                  Inl (e, s1) \<Rightarrow> s1
                | Inr s1 \<Rightarrow> dispose s1 sessionId)))"

definition on_error :: "service \<Rightarrow> nat \<Rightarrow> string \<Rightarrow> (js_error \<times> service) + service" where
  "on_error s p msg =
     (case map_of (procs s) p of
        None \<Rightarrow> Inr s
      | Some pr \<Rightarrow>
          (case wired pr of
             None \<Rightarrow> Inr s
           | Some sessionId \<Rightarrow>
               emit (EvError sessionId (ProcessError msg))
                 (update_session sessionId p (\<lambda>x. x\<lparr>status := Error\<rparr>)
                    (app_logged (ErrProcess sessionId msg) s))))"

subsection \<open>newSession\<close>

definition getProviderSpawnSpec :: "env \<Rightarrow> string \<Rightarrow> spawn_spec option" where
  "getProviderSpawnSpec e provider =
     (if provider = ''gemini'' then
        Some \<lparr>spec_command =
                (case gemini_path e of
                   Some path \<Rightarrow> if path \<noteq> [] then path else if win32 e then ''gemini.cmd'' else ''gemini''
                 | None \<Rightarrow> if win32 e then ''gemini.cmd'' else ''gemini''),
              spec_args = None\<rparr>
      else None)"

definition setupLogWriter :: "env \<Rightarrow> string \<Rightarrow> service \<Rightarrow> service" where
  "setupLogWriter e sessionId s =
     (case log_setup_throws e of
        Some m \<Rightarrow> app_logged (ErrLogWriter sessionId m) s
      | None \<Rightarrow>
          s\<lparr>streams := streams s @ [(length (streams s), \<lparr>written = [LogStarted sessionId], ends = 0\<rparr>)],
            logWriters := AList.update sessionId (length (streams s)) (logWriters s)\<rparr>)"

definition wireStdio :: "string \<Rightarrow> nat \<Rightarrow> service \<Rightarrow> service" where
  "wireStdio sessionId p s =
     (case map_of (sessions s) sessionId of
        None \<Rightarrow> s
      | Some session \<Rightarrow>
          s\<lparr>procs := AList.map_entry p (\<lambda>x. x\<lparr>wired := Some sessionId, buffer := []\<rparr>) (procs s)\<rparr>)"

definition default_init :: "env \<Rightarrow> json" where
  "default_init e =
     JObj [(''clientInfo'', JObj [(''name'', JStr ''emdash''), (''version'', JStr (app_version e))]),
           (''capabilities'',
              JObj [(''fs'', JObj [(''read_text_file'', JBool True), (''write_text_file'', JBool True)]),
                    (''terminal'', JBool True),
                    (''meta'', JObj [(''terminal_output'', JBool True)])])]"

text \<open>
  The part of \<^verbatim>\<open>newSession\<close> after \<^verbatim>\<open>await this.rpcCall(...)\<close>, run with the
  outcome of the promise: the version check, and the \<^verbatim>\<open>catch\<close> that disposes the
  session. \<open>p\<close> is the process of the session object the function holds.
\<close>

definition newSession_resume :: "service \<Rightarrow> string \<Rightarrow> nat \<Rightarrow> outcome \<Rightarrow> string reply \<times> service" where
  "newSession_resume s sessionId p out =
     (case out of
        Rejected err \<Rightarrow> (Failure (InitializeFailed err), dispose s sessionId)
      | Resolved result \<Rightarrow>
          (case js_get result ''protocolVersion'' of
             Inl e \<Rightarrow> (Failure (InitializeFailed e), dispose s sessionId)
           | Inr version \<Rightarrow>
               (case (if truthy version then js_string_of version else Inr []) of
                  Inl e \<Rightarrow> (Failure (InitializeFailed e), dispose s sessionId)
                | Inr str \<Rightarrow>
                    if truthy version \<and> parseInt_below_1 str then
                      (Failure UnsupportedProtocolVersion, dispose s sessionId)
                    else
                      (Success sessionId,
                       app_logged (InfoInitialized sessionId)
                         (update_session sessionId p
                            (\<lambda>x. x\<lparr>status := Ready, protocolVersion := version,
                                   capabilities :=
                                     (case js_get result ''capabilities'' of
                                        Inl e \<Rightarrow> None
                                      | Inr c \<Rightarrow> c)\<rparr>)
                            s)))))"

text \<open>
  \<^verbatim>\<open>newSession\<close> up to its \<^verbatim>\<open>await\<close>. Either it has returned, or it waits for the
  promise of the \<^verbatim>\<open>initialize\<close> call of a session and its process.
\<close>

datatype new_session_progress =
    Returned "string reply"
  | Awaiting string nat nat

definition newSession_begin ::
  "env \<Rightarrow> service \<Rightarrow> new_session_args \<Rightarrow> new_session_progress \<times> service" where
  "newSession_begin e s a =
     (let sessionId = a_providerId a @ ''-'' @ a_workspaceId a @ ''-'' @ show_nat (now e) in
      case (case a_spawnOverride a of Some spec \<Rightarrow> Some spec
            | None \<Rightarrow> getProviderSpawnSpec e (a_providerId a)) of
        None \<Rightarrow> (Returned (Failure (ProviderNotFound (a_providerId a))), s)
      | Some spec \<Rightarrow>
          (case spawn_throws e of
             Some m \<Rightarrow> (Returned (Failure (SpawnFailed (SpawnThrew m))), s)
           | None \<Rightarrow>
               (let p = length (procs s);
                    pr = \<lparr>command = spec_command spec,
                          args = (case spec_args spec of None \<Rightarrow> [] | Some xs \<Rightarrow> xs),
                          proc_cwd = a_cwd a, stdin = Some [], killed = False, exited = False,
                          signals = 0, wired = None, buffer = []\<rparr>;
                    session = \<lparr>sid = sessionId, providerId = a_providerId a,
                               workspaceId = a_workspaceId a, cwd = a_cwd a, process = p,
                               status = Initializing, protocolVersion = None,
                               capabilities = None\<rparr>;
                    s1 = s\<lparr>procs := procs s @ [(p, pr)],
                           sessions := AList.update sessionId session (sessions s)\<rparr>;
                    s2 = wireStdio sessionId p (setupLogWriter e sessionId s1);
                    initParams = (if truthy (a_init a) then a_init a else Some (default_init e))
                in case rpcCall s2 sessionId ''initialize'' initParams (initializeMs e) of
                     Inl err \<Rightarrow>
                       (case newSession_resume s2 sessionId p (Rejected err) of
                          (r, s3) \<Rightarrow> (Returned r, s3))
                   | Inr (i, s3) \<Rightarrow> (Awaiting sessionId p i, s3))))"

subsection \<open>prompt and cancel\<close>

datatype prompt_progress =
    PromptReturned "jsval reply"
  | PromptAwaiting nat

definition prompt_begin :: "env \<Rightarrow> service \<Rightarrow> string \<Rightarrow> string \<Rightarrow> prompt_progress \<times> service" where
  "prompt_begin e s sessionId promptText =
     (case map_of (sessions s) sessionId of
        None \<Rightarrow> (PromptReturned (Failure SessionNotFound), s)
      | Some session \<Rightarrow>
          if status session \<noteq> Ready then
            (PromptReturned (Failure (SessionNotReady (status session))), s)
          else
            (case rpcCall s sessionId ''prompt'' (Some (JObj [(''prompt'', JStr promptText)]))
                    (promptMs e) of
               Inl err \<Rightarrow> (PromptReturned (Failure (CallFailed err)), s)
             | Inr (i, s') \<Rightarrow> (PromptAwaiting i, s')))"

definition prompt_resume :: "outcome \<Rightarrow> jsval reply" where
  "prompt_resume out =
     (case out of Resolved r \<Rightarrow> Success r | Rejected err \<Rightarrow> Failure (CallFailed err))"

text \<open>
  \<^verbatim>\<open>cancel\<close>. The promise of \<^verbatim>\<open>rpcNotify\<close> is settled by the callback of the
  stdin write; \<open>werr\<close> is what the callback receives: \<open>None\<close> when the line was
  flushed, the error otherwise.
\<close>

definition cancel :: "service \<Rightarrow> string \<Rightarrow> string option \<Rightarrow> unit reply \<times> service" where
  "cancel s sessionId werr =
     (case map_of (sessions s) sessionId of
        None \<Rightarrow> (Failure SessionNotFound, s)
      | Some session \<Rightarrow>
          (case rpcNotify s sessionId ''cancel'' (Some (JObj [])) of
             Inl err \<Rightarrow> (Failure (CallFailed err), s)
           | Inr s' \<Rightarrow>
               (case werr of
                  None \<Rightarrow> (Success (), s')
                | Some m \<Rightarrow> (Failure (CallFailed (WriteError m)), s'))))"

section \<open>Reachable states\<close>

text \<open>
  The states the service can be in: it starts empty, and every call of its interface
  and every event of a subprocess, a timer or a stream write takes it to the next state,
  with whatever arguments and whatever parser. A handler that throws leaves the state
  it has reached.
\<close>

inductive reachable :: "service \<Rightarrow> bool" where
  start: "reachable empty_service"
| newSession_begin: "reachable s \<Longrightarrow> reachable (snd (newSession_begin e s a))"
| newSession_resume: "reachable s \<Longrightarrow> reachable (snd (newSession_resume s sessionId p out))"
| prompt_begin: "reachable s \<Longrightarrow> reachable (snd (prompt_begin e s sessionId promptText))"
| cancel: "reachable s \<Longrightarrow> reachable (snd (cancel s sessionId werr))"
| dispose: "reachable s \<Longrightarrow> reachable (dispose s sessionId)"
| addListener_error: "reachable s \<Longrightarrow> reachable (addListener_error s)"
| on_stdout: "reachable s \<Longrightarrow> reachable (state_after (on_stdout parse s p chunk))"
| on_stderr: "reachable s \<Longrightarrow> reachable (on_stderr s p chunk)"
| on_exit: "reachable s \<Longrightarrow> reachable (on_exit s p code signal)"
| on_error: "reachable s \<Longrightarrow> reachable (state_after (on_error s p msg))"
| timer_fires: "reachable s \<Longrightarrow> reachable (timer_fires s h)"
| write_failed: "reachable s \<Longrightarrow> reachable (rpcCall_write_failed s sessionId i err)"

text \<open>
  Every registered session has a process with a stdin stream (\<^verbatim>\<open>spawn\<close> is called
  with \<^verbatim>\<open>stdio: ['pipe', 'pipe', 'pipe']\<close>), and the handles of the process table
  are below its length.
\<close>

definition stdin_piped :: "service \<Rightarrow> bool" where
  "stdin_piped s =
     (list_all (\<lambda>(k, x). stdin_of s x \<noteq> None) (sessions s) \<and>
      list_all (\<lambda>(h, pr). h < length (procs s)) (procs s))"

section \<open>Example inputs\<close>

definition ex_env :: env where
  "ex_env =
     \<lparr>now = 1700000000000, gemini_path = None, win32 = False, initializeMs = 15000,
      promptMs = 600000, app_version = ''0.1.0'', spawn_throws = None,
      log_setup_throws = None\<rparr>"

definition ex_args :: new_session_args where
  "ex_args =
     \<lparr>a_providerId = ''gemini'', a_workspaceId = ''w'', a_cwd = ''/tmp'',
      a_spawnOverride = None, a_init = None\<rparr>"

definition ex_sid :: string where
  "ex_sid = ''gemini-w-1700000000000''"

text \<open>The service after \<^verbatim>\<open>newSession\<close> has sent \<^verbatim>\<open>initialize\<close> for its first session.\<close>

definition ex_started :: service where
  "ex_started = snd (newSession_begin ex_env empty_service ex_args)"

text \<open>
  Two messages an agent can write: a notification that also carries an \<^verbatim>\<open>error\<close>
  member, and a request of the agent to the client.
\<close>

definition ex_error_notice :: json where
  "ex_error_notice =
     JObj [(''jsonrpc'', JStr ''2.0''), (''method'', JStr ''progress''),
           (''error'', JObj [(''code'', JNum ''1''), (''message'', JStr ''disk full'')])]"

definition ex_server_request :: json where
  "ex_server_request =
     JObj [(''jsonrpc'', JStr ''2.0''), (''id'', JNum ''7''), (''method'', JStr ''fs/read_text_file''),
           (''params'', JObj [(''path'', JStr ''/tmp/a'')])]"

text \<open>
  A second session, created five milliseconds later for a workspace whose id makes the
  new session id an extension of the first one.
\<close>

definition ex_env2 :: env where
  "ex_env2 = ex_env\<lparr>now := 1700000000005\<rparr>"

definition ex_args2 :: new_session_args where
  "ex_args2 = ex_args\<lparr>a_workspaceId := ''w-1700000000000-x''\<rparr>"

definition ex_sid2 :: string where
  "ex_sid2 = ''gemini-w-1700000000000-x-1700000000005''"

definition ex_two :: service where
  "ex_two = snd (newSession_begin ex_env2 ex_started ex_args2)"

text \<open>
  Three answers to \<^verbatim>\<open>initialize\<close>: one without \<^verbatim>\<open>protocolVersion\<close>, one with
  version \<^verbatim>\<open>"0"\<close>, one whose result is \<^verbatim>\<open>null\<close>; and the service after the
  handler has processed an answer.
\<close>

definition ex_reply_without_version :: json where
  "ex_reply_without_version =
     JObj [(''jsonrpc'', JStr ''2.0''), (''id'', JNum ''1''),
           (''result'', JObj [(''capabilities'', JObj [])])]"

definition ex_reply_version_0 :: json where
  "ex_reply_version_0 =
     JObj [(''jsonrpc'', JStr ''2.0''), (''id'', JNum ''1''),
           (''result'', JObj [(''protocolVersion'', JStr ''0''), (''capabilities'', JObj [])])]"

definition ex_reply_null :: json where
  "ex_reply_null =
     JObj [(''jsonrpc'', JStr ''2.0''), (''id'', JNum ''1''), (''result'', JNull)]"

definition ex_answered :: "json \<Rightarrow> service" where
  "ex_answered reply =
     (case handleMessage ex_started ex_sid reply of Inr s \<Rightarrow> s | Inl (e, s) \<Rightarrow> s)"

text \<open>
  The same service after the IPC layer has attached its listener for \<^verbatim>\<open>'error'\<close>.
\<close>

definition ex_heard :: service where
  "ex_heard = addListener_error ex_started"













text \<open>The first session after its process has reported an error: its status is \<^verbatim>\<open>error\<close>.\<close>

definition ex_errored :: service where
  "ex_errored = state_after (on_error ex_heard 0 ''read ECONNRESET'')"

section \<open>The classification in the specification's words\<close>

text \<open>
  The specification classifies a parsed value by the fields it has: a Response has an
  \<^verbatim>\<open>id\<close> together with a \<^verbatim>\<open>result\<close> or an \<^verbatim>\<open>error\<close>; a Notification has a
  \<^verbatim>\<open>method\<close> and no \<^verbatim>\<open>id\<close>. These two definitions follow that wording, to be
  compared with \<open>response_test\<close> and \<open>notification_test\<close> of the handler.
\<close>

definition has_field :: "string \<Rightarrow> json \<Rightarrow> bool" where
  "has_field k msg = (js_in k msg = Inr True)"

definition spec_Response :: "json \<Rightarrow> bool" where
  "spec_Response msg =
     (has_field ''id'' msg \<and> (has_field ''result'' msg \<or> has_field ''error'' msg))"

definition spec_Notification :: "json \<Rightarrow> bool" where
  "spec_Notification msg = (has_field ''method'' msg \<and> \<not> has_field ''id'' msg)"

section \<open>Evaluation of the examples\<close>

lemma state_after_simps [simp]:
  "state_after (Inl (e, s)) = s"
  "state_after (Inr s) = s"
  by (simp_all add: state_after_def)

text \<open>\<^verbatim>\<open>emit\<close> throws on \<^verbatim>\<open>'error'\<close> without a listener, and in no other case.\<close>

lemma emit_notification:
  "event_name e \<noteq> ''error'' \<Longrightarrow> emit e s = Inr (s\<lparr>emitted := emitted s @ [e]\<rparr>)"
  by (simp add: emit_def)

lemma emit_heard:
  "0 < error_listeners s \<Longrightarrow> emit e s = Inr (s\<lparr>emitted := emitted s @ [e]\<rparr>)"
  by (simp add: emit_def)

lemma emit_unheard:
  "error_listeners s = 0 \<Longrightarrow> emit (EvError sessionId err) s = Inl (UnhandledError, s)"
  by (simp add: emit_def)

lemma show_nat_now: "show_nat 1700000000000 = ''1700000000000''"
  by (simp add: show_nat.simps digit_char_def)

lemma show_nat_1: "show_nat (Suc 0) = ''1''"
  by (simp add: show_nat.simps digit_char_def)

lemma show_nat_2: "show_nat 2 = ''2''"
  by (simp add: show_nat.simps digit_char_def)

lemma ex_started_eq:
  "ex_started =
     \<lparr>sessions =
        [(ex_sid, \<lparr>sid = ex_sid, providerId = ''gemini'', workspaceId = ''w'', cwd = ''/tmp'',
                   process = 0, status = Initializing, protocolVersion = None,
                   capabilities = None\<rparr>)],
      pendingRequests = [(ex_sid @ '':1'', \<lparr>promise = 1, timeout = 1\<rparr>)],
      requestIdCounter = 1,
      logWriters = [(ex_sid, 0)],
      procs =
        [(0, \<lparr>command = ''gemini'', args = [], proc_cwd = ''/tmp'',
               stdin = Some [Request 1 ''initialize'' (Some (default_init ex_env))],
               killed = False, exited = False, signals = 0, wired = Some ex_sid,
               buffer = []\<rparr>)],
      streams =
        [(0, \<lparr>written = [LogStarted ex_sid,
                           LogRequest ''initialize'' (Some (default_init ex_env))],
               ends = 0\<rparr>)],
      timers =
        [(1, \<lparr>t_key = ex_sid @ '':1'', t_method = ''initialize'', t_ms = 15000,
               t_promise = 1\<rparr>)],
      settled = [], emitted = [], applog = [], error_listeners = 0\<rparr>"
  by (simp add: newSession_begin_def getProviderSpawnSpec_def setupLogWriter_def wireStdio_def
      rpcCall_def stdin_of_def stdin_write_def writeLog_def empty_service_def
      ex_env_def ex_args_def ex_started_def ex_sid_def show_nat_now show_nat_1 Let_def)

lemma show_nat_now2: "show_nat 1700000000005 = ''1700000000005''"
  by (simp add: show_nat.simps digit_char_def)

lemma show_nat_Suc_1: "show_nat (Suc (Suc 0)) = ''2''"
  using show_nat_2 by (simp add: numeral_2_eq_2)

lemma ex_two_eq:
  "ex_two =
     \<lparr>sessions =
        [(ex_sid, \<lparr>sid = ex_sid, providerId = ''gemini'', workspaceId = ''w'', cwd = ''/tmp'',
                   process = 0, status = Initializing, protocolVersion = None,
                   capabilities = None\<rparr>),
         (ex_sid2, \<lparr>sid = ex_sid2, providerId = ''gemini'', workspaceId = ''w-1700000000000-x'',
                    cwd = ''/tmp'', process = 1, status = Initializing, protocolVersion = None,
                    capabilities = None\<rparr>)],
      pendingRequests = [(ex_sid @ '':1'', \<lparr>promise = 1, timeout = 1\<rparr>),
                         (ex_sid2 @ '':2'', \<lparr>promise = 2, timeout = 2\<rparr>)],
      requestIdCounter = 2,
      logWriters = [(ex_sid, 0), (ex_sid2, 1)],
      procs =
        [(0, \<lparr>command = ''gemini'', args = [], proc_cwd = ''/tmp'',
               stdin = Some [Request 1 ''initialize'' (Some (default_init ex_env))],
               killed = False, exited = False, signals = 0, wired = Some ex_sid,
               buffer = []\<rparr>),
         (1, \<lparr>command = ''gemini'', args = [], proc_cwd = ''/tmp'',
               stdin = Some [Request 2 ''initialize'' (Some (default_init ex_env))],
               killed = False, exited = False, signals = 0, wired = Some ex_sid2,
               buffer = []\<rparr>)],
      streams =
        [(0, \<lparr>written = [LogStarted ex_sid,
                           LogRequest ''initialize'' (Some (default_init ex_env))],
               ends = 0\<rparr>),
         (1, \<lparr>written = [LogStarted ex_sid2,
                           LogRequest ''initialize'' (Some (default_init ex_env))],
               ends = 0\<rparr>)],
      timers =
        [(1, \<lparr>t_key = ex_sid @ '':1'', t_method = ''initialize'', t_ms = 15000,
               t_promise = 1\<rparr>),
         (2, \<lparr>t_key = ex_sid2 @ '':2'', t_method = ''initialize'', t_ms = 15000,
               t_promise = 2\<rparr>)],
      settled = [], emitted = [], applog = [], error_listeners = 0\<rparr>"
  by (simp add: ex_two_def ex_started_eq newSession_begin_def getProviderSpawnSpec_def
      setupLogWriter_def wireStdio_def rpcCall_def stdin_of_def stdin_write_def writeLog_def
      ex_env_def ex_env2_def ex_args_def ex_args2_def ex_sid_def ex_sid2_def show_nat_now2
      show_nat_2 show_nat_Suc_1 default_init_def Let_def)

lemma parseInt_0: "parseInt ''0'' = Some 0"
  by (simp add: parseInt_def str_ws_def digit_of_def Let_def)

lemma parseInt_1: "parseInt ''1'' = Some 1"
  by (simp add: parseInt_def str_ws_def digit_of_def Let_def)

lemma parseInt_abc: "parseInt ''abc'' = None"
  by (simp add: parseInt_def str_ws_def digit_of_def Let_def)

lemma parseInt_neg: "parseInt '' -12px'' = Some (- 12)"
  by (simp add: parseInt_def str_ws_def digit_of_def Let_def)

lemma parseInt_hex: "parseInt ''0x1F'' = Some 31"
  by (simp add: parseInt_def str_ws_def digit_of_def Let_def)

lemma ex_answered_eq:
  "reply \<in> {ex_reply_without_version, ex_reply_version_0, ex_reply_null} \<Longrightarrow>
   ex_answered reply =
     ex_started\<lparr>timers := [], pendingRequests := [],
                settled := [(1, Resolved (js_prop reply ''result''))]\<rparr>"
  by (auto simp: ex_answered_def handleMessage_def response_test_def ex_started_eq
      ex_reply_without_version_def ex_reply_version_0_def ex_reply_null_def ex_sid_def
      delete_pending_def clearTimeout_def settle_def AList.delete_eq Let_def)

lemma reachable_ex_started: "reachable ex_started"
  unfolding ex_started_def by (intro reachable.newSession_begin reachable.start)

lemma reachable_ex_two: "reachable ex_two"
  unfolding ex_two_def by (intro reachable.newSession_begin reachable_ex_started)

section \<open>Classification of inbound messages\<close>

text \<open>What the first test of the handler computes, in terms of the fields present.\<close>

lemma response_test_fields:
  "response_test msg = Inr b \<Longrightarrow>
     b = (has_field ''id'' msg \<and> has_field ''result'' msg \<or> has_field ''error'' msg)"
  by (cases msg) (auto simp: response_test_def has_field_def split: if_splits)

text \<open>
  Claim C1. The handler should treat a value as a Response exactly when it has an
  \<^verbatim>\<open>id\<close> together with a \<^verbatim>\<open>result\<close> or an \<^verbatim>\<open>error\<close>, and as a Notification
  exactly when it has a \<^verbatim>\<open>method\<close> and no \<^verbatim>\<open>id\<close>. The code's test groups as
  \<^verbatim>\<open>('id' in msg && 'result' in msg) || 'error' in msg\<close>: a notification that carries
  an \<^verbatim>\<open>error\<close> member and no \<^verbatim>\<open>id\<close> is a Notification and not a Response in the
  specification's words, yet the handler takes the Response branch, finds no pending call
  under the key ending in \<^verbatim>\<open>:undefined\<close> and returns without emitting anything.
\<close>

theorem C1_error_without_id_is_handled_as_response:
  "reachable ex_started \<and>
   spec_Notification ex_error_notice \<and> \<not> spec_Response ex_error_notice \<and>
   response_test ex_error_notice = Inr True \<and>
   handleMessage ex_started ex_sid ex_error_notice = Inr ex_started"
  using reachable_ex_started
  by (simp add: spec_Notification_def spec_Response_def has_field_def ex_error_notice_def
      response_test_def handleMessage_def ex_started_eq ex_sid_def)

text \<open>
  Claim C7, as stated: a message that is neither a Response nor a Notification, such as
  a request of the agent with \<^verbatim>\<open>method\<close> and \<^verbatim>\<open>id\<close>, is surfaced as an event. The
  handler has no such event: on the request below it returns with the state as it was,
  nothing emitted.
\<close>

theorem C7_server_request_is_dropped:
  "reachable ex_started \<and>
   \<not> spec_Response ex_server_request \<and> \<not> spec_Notification ex_server_request \<and>
   emitted ex_started = [] \<and>
   handleMessage ex_started ex_sid ex_server_request = Inr ex_started"
  using reachable_ex_started
  by (simp add: spec_Notification_def spec_Response_def has_field_def ex_server_request_def
      response_test_def notification_test_def handleMessage_def ex_started_eq ex_sid_def)

text \<open>
  Claim C7, amended: a parsed object or array that fails both tests of the handler (in
  particular one with \<^verbatim>\<open>method\<close> and \<^verbatim>\<open>id\<close> and neither \<^verbatim>\<open>result\<close> nor
  \<^verbatim>\<open>error\<close>) is ignored: the handler returns and the state of the service is
  unchanged, so no event is emitted, nothing is logged and no pending call is touched.
\<close>

theorem C7_unclassified_message_is_ignored:
  "(response_test msg = Inr False \<and> notification_test msg = Inr False \<longrightarrow>
      handleMessage s sessionId msg = Inr s) \<and>
   (has_field ''id'' msg \<and> \<not> has_field ''result'' msg \<and> \<not> has_field ''error'' msg \<longrightarrow>
      response_test msg = Inr False \<and> notification_test msg = Inr False \<and>
      handleMessage s sessionId msg = Inr s)"
proof (intro conjI impI)
  assume "response_test msg = Inr False \<and> notification_test msg = Inr False"
  then show "handleMessage s sessionId msg = Inr s"
    by (simp add: handleMessage_def)
next
  assume shape: "has_field ''id'' msg \<and> \<not> has_field ''result'' msg \<and> \<not> has_field ''error'' msg"
  then obtain ps where msg: "msg = JObj ps"
    by (cases msg) (auto simp: has_field_def)
  show r: "response_test msg = Inr False"
    using shape by (auto simp: msg has_field_def response_test_def)
  show n: "notification_test msg = Inr False"
    using shape by (auto simp: msg has_field_def notification_test_def)
  show "handleMessage s sessionId msg = Inr s"
    using r n by (simp add: handleMessage_def)
qed

theorem C7_unclassified_message_is_ignored_witness:
  "has_field ''id'' ex_server_request \<and> has_field ''method'' ex_server_request \<and>
   \<not> has_field ''result'' ex_server_request \<and> \<not> has_field ''error'' ex_server_request \<and>
   response_test ex_server_request = Inr False \<and>
   notification_test ex_server_request = Inr False \<and>
   handleMessage ex_started ex_sid ex_server_request = Inr ex_started"
proof -
  have shape: "has_field ''id'' ex_server_request \<and> \<not> has_field ''result'' ex_server_request \<and>
      \<not> has_field ''error'' ex_server_request"
    by (simp add: has_field_def ex_server_request_def)
  have m: "has_field ''method'' ex_server_request"
    by (simp add: has_field_def ex_server_request_def)
  from C7_unclassified_message_is_ignored [of ex_server_request ex_started ex_sid] shape m
  show ?thesis by simp
qed

section \<open>Timeout against a late response\<close>

lemma rpcCall_timer:
  "rpcCall s sessionId method params ms = Inr (i, s1) \<Longrightarrow>
   map_of (timers s1) i =
     Some \<lparr>t_key = sessionId @ '':'' @ show_nat i, t_method = method, t_ms = ms, t_promise = i\<rparr>"
  by (auto simp: rpcCall_def Let_def writeLog_def stdin_write_def update_conv'
      split: option.splits)

text \<open>
  Claim C3. Let request \<open>i\<close> have been issued by \<open>rpcCall\<close> for a session, and let
  \<open>s\<close> be any later state in which its timer is still running (no response, write
  failure or disposal has cleared it). When the timer fires, the call is rejected with
  the timeout error, once, and its entry leaves the pending map; the timer cannot fire a
  second time; and a Response of that session carrying the same id that arrives
  afterwards makes the handler return with the state unchanged: it settles nothing and
  throws nothing.
\<close>

theorem C3_timeout_wins_late_response_is_noop:
  assumes call: "rpcCall s0 sessionId method params ms = Inr (i, s1)"
      and running: "map_of (timers s) i = map_of (timers s1) i"
  shows "settled (timer_fires s i) = settled s @ [(i, Rejected (RequestTimedOut method ms))] \<and>
         map_of (pendingRequests (timer_fires s i)) (sessionId @ '':'' @ show_nat i) = None \<and>
         timer_fires (timer_fires s i) i = timer_fires s i \<and>
         (\<forall>msg. response_test msg = Inr True \<longrightarrow>
                js_string_of (js_prop msg ''id'') = Inr (show_nat i) \<longrightarrow>
                handleMessage (timer_fires s i) sessionId msg = Inr (timer_fires s i))"
proof -
  let ?k = "sessionId @ '':'' @ show_nat i"
  let ?t = "\<lparr>t_key = ?k, t_method = method, t_ms = ms, t_promise = i\<rparr>"
  have t: "map_of (timers s) i = Some ?t"
    using rpcCall_timer [OF call] running by simp
  have fired: "timer_fires s i =
      settle i (Rejected (RequestTimedOut method ms))
        (delete_pending ?k (s\<lparr>timers := AList.delete i (timers s)\<rparr>))"
    using t by (simp add: timer_fires_def)
  have gone: "map_of (pendingRequests (timer_fires s i)) ?k = None"
    by (simp add: fired settle_def delete_pending_def delete_conv')
  have stopped: "map_of (timers (timer_fires s i)) i = None"
    by (simp add: fired settle_def delete_pending_def delete_conv')
  show ?thesis
  proof (intro conjI allI impI)
    show "settled (timer_fires s i) = settled s @ [(i, Rejected (RequestTimedOut method ms))]"
      by (simp add: fired settle_def delete_pending_def)
    show "map_of (pendingRequests (timer_fires s i)) ?k = None" by (rule gone)
    show "timer_fires (timer_fires s i) i = timer_fires s i"
      using stopped by (simp add: timer_fires_def)
  next
    fix msg
    assume "response_test msg = Inr True"
       and "js_string_of (js_prop msg ''id'') = Inr (show_nat i)"
    then show "handleMessage (timer_fires s i) sessionId msg = Inr (timer_fires s i)"
      using gone by (simp add: handleMessage_def)
  qed
qed

text \<open>
  The witness: a \<^verbatim>\<open>prompt\<close> call on the example session is request 2; its timer
  fires, and the response \<^verbatim>\<open>{"jsonrpc":"2.0","id":2,"result":{}}\<close> comes late.
\<close>

theorem C3_timeout_wins_late_response_is_noop_witness:
  "(case rpcCall ex_started ex_sid ''prompt'' None 600000 of
      Inl e \<Rightarrow> False
    | Inr (i, s1) \<Rightarrow>
        i = 2 \<and>
        settled (timer_fires s1 i) = [(2, Rejected (RequestTimedOut ''prompt'' 600000))] \<and>
        map_of (pendingRequests (timer_fires s1 i)) (ex_sid @ '':2'') = None \<and>
        handleMessage (timer_fires s1 i) ex_sid
          (JObj [(''jsonrpc'', JStr ''2.0''), (''id'', JNum ''2''), (''result'', JObj [])])
          = Inr (timer_fires s1 i))"
proof -
  obtain s1 where call: "rpcCall ex_started ex_sid ''prompt'' None 600000 = Inr (2, s1)"
    by (simp add: rpcCall_def ex_started_eq stdin_of_def Let_def)
  have quiet: "settled s1 = []"
    using call
    by (auto simp: rpcCall_def ex_started_eq stdin_of_def Let_def writeLog_def stdin_write_def)
  have test: "response_test (JObj [(''jsonrpc'', JStr ''2.0''), (''id'', JNum ''2''), (''result'', JObj [])])
                = Inr True"
    by (simp add: response_test_def)
  from C3_timeout_wins_late_response_is_noop [OF call refl] test quiet call
  show ?thesis by (simp add: show_nat_2)
qed

section \<open>Lookups in the maps\<close>

lemma map_of_map_entry_same:
  "map_of (AList.map_entry k f xs) k = map_option f (map_of xs k)"
  by (simp add: map_of_map_entry split: option.splits)

lemma map_of_map_entry_other:
  "k' \<noteq> k \<Longrightarrow> map_of (AList.map_entry k f xs) k' = map_of xs k'"
  by (simp add: map_of_map_entry)

section \<open>dispose\<close>

text \<open>The loop over the pending calls touches the pending map, the timers and the promises only.\<close>

lemma reject_pending_frame:
  "sessions (reject_pending sessionId ps s) = sessions s \<and>
   logWriters (reject_pending sessionId ps s) = logWriters s \<and>
   streams (reject_pending sessionId ps s) = streams s \<and>
   procs (reject_pending sessionId ps s) = procs s \<and>
   emitted (reject_pending sessionId ps s) = emitted s \<and>
   applog (reject_pending sessionId ps s) = applog s \<and>
   requestIdCounter (reject_pending sessionId ps s) = requestIdCounter s"
  by (induction ps arbitrary: s) (auto simp: delete_pending_def settle_def clearTimeout_def)

lemma reject_pending_settled:
  "settled (reject_pending sessionId ps s) =
     settled s @ map (\<lambda>(k, p). (promise p, Rejected SessionDisposed))
                     (filter (\<lambda>(k, p). prefix sessionId k) ps)"
  by (induction ps arbitrary: s) (auto simp: delete_pending_def settle_def clearTimeout_def)

lemma reject_pending_map:
  "map_of (pendingRequests (reject_pending sessionId ps s)) k =
     (if prefix sessionId k \<and> k \<in> fst ` set ps then None else map_of (pendingRequests s) k)"
proof (induction ps arbitrary: s)
  case Nil
  show ?case by simp
next
  case (Cons a ps)
  obtain r p where a: "a = (r, p)" by (cases a)
  show ?case
    unfolding a
    by (auto simp: Cons.IH delete_pending_def settle_def clearTimeout_def delete_conv')
qed

lemma dispose_absent: "map_of (sessions s) sessionId = None \<Longrightarrow> dispose s sessionId = s"
  by (simp add: dispose_def)

lemma kill_process_frame:
  "sessions (kill_process p s) = sessions s \<and> pendingRequests (kill_process p s) = pendingRequests s \<and>
   logWriters (kill_process p s) = logWriters s \<and> streams (kill_process p s) = streams s \<and>
   settled (kill_process p s) = settled s \<and> timers (kill_process p s) = timers s"
  by (simp add: kill_process_def split: option.splits)

lemma close_writer_frame:
  "sessions (close_writer sessionId s) = sessions s \<and> pendingRequests (close_writer sessionId s) = pendingRequests s \<and>
   procs (close_writer sessionId s) = procs s \<and> settled (close_writer sessionId s) = settled s"
  by (simp add: close_writer_def split: option.splits)

lemma dispose_sessions:
  "sessions (dispose s sessionId) = AList.delete sessionId (sessions s)"
proof (cases "map_of (sessions s) sessionId")
  case None
  then have "sessionId \<notin> fst ` set (sessions s)" by (simp add: map_of_eq_None_iff)
  with None show ?thesis by (simp add: dispose_def)
next
  case (Some x)
  then show ?thesis
    by (simp add: dispose_def Let_def app_logged_def close_writer_frame reject_pending_frame
        kill_process_frame)
qed

lemma dispose_removes: "map_of (sessions (dispose s sessionId)) sessionId = None"
  by (simp add: dispose_sessions delete_conv')

lemma dispose_twice: "dispose (dispose s sessionId) sessionId = dispose s sessionId"
  by (rule dispose_absent) (rule dispose_removes)

lemma dispose_settled:
  "map_of (sessions s) sessionId = Some x \<Longrightarrow>
   settled (dispose s sessionId) =
     settled s @ map (\<lambda>(k, p). (promise p, Rejected SessionDisposed))
                     (filter (\<lambda>(k, p). prefix sessionId k) (pendingRequests s))"
  by (simp add: dispose_def Let_def app_logged_def close_writer_frame reject_pending_settled
      kill_process_frame)

lemma dispose_pending:
  "map_of (sessions s) sessionId = Some x \<Longrightarrow>
   map_of (pendingRequests (dispose s sessionId)) k =
     (if prefix sessionId k then None else map_of (pendingRequests s) k)"
  by (auto simp: dispose_def Let_def app_logged_def close_writer_frame reject_pending_map
      kill_process_frame map_of_eq_None_iff)

lemma dispose_procs:
  "map_of (sessions s) sessionId = Some x \<Longrightarrow> map_of (procs s) (process x) = Some pr \<Longrightarrow>
   map_of (procs (dispose s sessionId)) (process x) =
     Some (if killed pr \<or> exited pr then pr else pr\<lparr>killed := True, signals := signals pr + 1\<rparr>)"
  by (auto simp: dispose_def Let_def app_logged_def close_writer_frame reject_pending_frame
      kill_process_def proc_kill_def map_of_map_entry_same)

lemma dispose_writer:
  "map_of (sessions s) sessionId = Some x \<Longrightarrow>
   map_of (logWriters (dispose s sessionId)) sessionId = None \<and>
   (\<forall>w. map_of (logWriters s) sessionId = Some w \<longrightarrow>
        map_of (streams (dispose s sessionId)) w =
          map_option (\<lambda>f. f\<lparr>ends := ends f + 1\<rparr>) (map_of (streams s) w))"
  by (auto simp: dispose_def Let_def app_logged_def close_writer_def reject_pending_frame
      kill_process_frame map_of_map_entry_same delete_conv' split: option.splits)

lemma on_exit_disposed:
  "map_of (procs s) p = Some pr \<Longrightarrow> wired pr = Some sessionId \<Longrightarrow>
   dispose (on_exit s p code signal) sessionId = on_exit s p code signal"
  by (simp add: on_exit_def Let_def emit_notification dispose_twice)

text \<open>
  Claim C6. \<open>dispose\<close> is idempotent: a second call returns the state of the first,
  and so does a call after the \<^verbatim>\<open>exit\<close> handler of the session's process has run.
  The first call on a registered session removes it from the registry; rejects, once
  each and in the order of the map, the pending calls whose key starts with the session
  id, among them every call registered under the session (key
  \<^verbatim>\<open>`${sessionId}:${id}`\<close>), none of which stays pending; ends the log writer once
  and forgets it; and signals the process unless it was killed or has terminated.
\<close>

theorem C6_dispose_is_idempotent:
  "dispose (dispose s sessionId) sessionId = dispose s sessionId \<and>
   map_of (sessions (dispose s sessionId)) sessionId = None \<and>
   (\<forall>p pr code signal. map_of (procs s) p = Some pr \<longrightarrow> wired pr = Some sessionId \<longrightarrow>
      dispose (on_exit s p code signal) sessionId = on_exit s p code signal) \<and>
   (\<forall>session. map_of (sessions s) sessionId = Some session \<longrightarrow>
      settled (dispose s sessionId) =
        settled s @ map (\<lambda>(k, p). (promise p, Rejected SessionDisposed))
                        (filter (\<lambda>(k, p). prefix sessionId k) (pendingRequests s)) \<and>
      (\<forall>r. map_of (pendingRequests (dispose s sessionId)) (sessionId @ '':'' @ r) = None) \<and>
      map_of (logWriters (dispose s sessionId)) sessionId = None \<and>
      (\<forall>w. map_of (logWriters s) sessionId = Some w \<longrightarrow>
         map_of (streams (dispose s sessionId)) w =
           map_option (\<lambda>f. f\<lparr>ends := ends f + 1\<rparr>) (map_of (streams s) w)) \<and>
      (\<forall>pr. map_of (procs s) (process session) = Some pr \<longrightarrow>
         map_of (procs (dispose s sessionId)) (process session) =
           Some (if killed pr \<or> exited pr then pr
                 else pr\<lparr>killed := True, signals := signals pr + 1\<rparr>)))"
proof (intro conjI allI impI)
  show "dispose (dispose s sessionId) sessionId = dispose s sessionId" by (rule dispose_twice)
  show "map_of (sessions (dispose s sessionId)) sessionId = None" by (rule dispose_removes)
next
  fix p pr code signal
  assume "map_of (procs s) p = Some pr" and "wired pr = Some sessionId"
  then show "dispose (on_exit s p code signal) sessionId = on_exit s p code signal"
    by (rule on_exit_disposed)
next
  fix session
  assume a: "map_of (sessions s) sessionId = Some session"
  show "settled (dispose s sessionId) =
        settled s @ map (\<lambda>(k, p). (promise p, Rejected SessionDisposed))
                        (filter (\<lambda>(k, p). prefix sessionId k) (pendingRequests s))"
    by (rule dispose_settled [OF a])
  show "map_of (pendingRequests (dispose s sessionId)) (sessionId @ '':'' @ r) = None" for r
    by (simp add: dispose_pending [OF a])
  show "map_of (logWriters (dispose s sessionId)) sessionId = None"
    using dispose_writer [OF a] by simp
  show "map_of (streams (dispose s sessionId)) w =
           map_option (\<lambda>f. f\<lparr>ends := ends f + 1\<rparr>) (map_of (streams s) w)"
    if "map_of (logWriters s) sessionId = Some w" for w
    using dispose_writer [OF a] that by simp
  show "map_of (procs (dispose s sessionId)) (process session) =
           Some (if killed pr \<or> exited pr then pr
                 else pr\<lparr>killed := True, signals := signals pr + 1\<rparr>)"
    if "map_of (procs s) (process session) = Some pr" for pr
    by (rule dispose_procs [OF a that])
qed

theorem C6_dispose_is_idempotent_witness:
  "map_of (sessions ex_started) ex_sid \<noteq> None \<and>
   dispose (dispose ex_started ex_sid) ex_sid = dispose ex_started ex_sid \<and>
   map_of (sessions (dispose ex_started ex_sid)) ex_sid = None \<and>
   dispose (on_exit ex_started 0 (Some 0) None) ex_sid = on_exit ex_started 0 (Some 0) None \<and>
   settled (dispose ex_started ex_sid) = [(1, Rejected SessionDisposed)] \<and>
   map_of (pendingRequests (dispose ex_started ex_sid)) (ex_sid @ '':1'') = None \<and>
   map_of (logWriters (dispose ex_started ex_sid)) ex_sid = None \<and>
   map_option ends (map_of (streams (dispose ex_started ex_sid)) 0) = Some 1 \<and>
   map_option killed (map_of (procs (dispose ex_started ex_sid)) 0) = Some True \<and>
   map_option signals (map_of (procs (dispose ex_started ex_sid)) 0) = Some 1"
  using C6_dispose_is_idempotent [of ex_started ex_sid]
  by (simp add: ex_started_eq ex_sid_def)

text \<open>
  Claim C5. Disposing one session should leave the pending calls of every other session
  alone. \<open>dispose\<close> selects the calls by \<^verbatim>\<open>reqId.toString().startsWith(sessionId)\<close>,
  without the separating colon. With the two example sessions, whose ids are
  \<^verbatim>\<open>gemini-w-1700000000000\<close> and \<^verbatim>\<open>gemini-w-1700000000000-x-1700000000005\<close>,
  disposing the first rejects the pending \<^verbatim>\<open>initialize\<close> call of the second with
  \<^verbatim>\<open>Session disposed\<close> and removes it from the map, although the second session stays
  registered.
\<close>

theorem C5_dispose_rejects_call_of_other_session:
  "reachable ex_two \<and>
   ex_sid \<noteq> ex_sid2 \<and>
   map_of (sessions ex_two) ex_sid2 \<noteq> None \<and>
   map_of (pendingRequests ex_two) (ex_sid2 @ '':2'') = Some \<lparr>promise = 2, timeout = 2\<rparr> \<and>
   settled ex_two = [] \<and>
   map_of (sessions (dispose ex_two ex_sid)) ex_sid2 \<noteq> None \<and>
   map_of (pendingRequests (dispose ex_two ex_sid)) (ex_sid2 @ '':2'') = None \<and>
   settled (dispose ex_two ex_sid) = [(1, Rejected SessionDisposed), (2, Rejected SessionDisposed)]"
  using reachable_ex_two
  by (simp add: ex_two_eq dispose_def kill_process_def proc_kill_def close_writer_def
      app_logged_def delete_pending_def settle_def clearTimeout_def AList.delete_eq
      ex_sid_def ex_sid2_def Let_def)

section \<open>The handshake\<close>

text \<open>
  Claim C2, as stated: an answer to \<^verbatim>\<open>initialize\<close> whose \<^verbatim>\<open>protocolVersion\<close> is
  missing makes \<^verbatim>\<open>newSession\<close> fail and tear the session down. The check is
  \<^verbatim>\<open>result.protocolVersion && parseInt(result.protocolVersion) < 1\<close>: without a version
  it does not fire. After the answer below the handler resolves the call, and
  \<^verbatim>\<open>newSession\<close> returns success with the session Ready and the process alive.
\<close>

theorem C2_missing_version_becomes_ready:
  "js_get (js_prop ex_reply_without_version ''result'') ''protocolVersion'' = Inr None \<and>
   settled (ex_answered ex_reply_without_version)
     = [(1, Resolved (js_prop ex_reply_without_version ''result''))] \<and>
   fst (newSession_resume (ex_answered ex_reply_without_version) ex_sid 0
          (Resolved (js_prop ex_reply_without_version ''result''))) = Success ex_sid \<and>
   map_option status
     (map_of (sessions (snd (newSession_resume (ex_answered ex_reply_without_version) ex_sid 0
          (Resolved (js_prop ex_reply_without_version ''result''))))) ex_sid) = Some Ready \<and>
   map_option killed
     (map_of (procs (snd (newSession_resume (ex_answered ex_reply_without_version) ex_sid 0
          (Resolved (js_prop ex_reply_without_version ''result''))))) 0) = Some False"
  by (simp add: ex_answered_eq newSession_resume_def update_session_def app_logged_def
      ex_started_eq ex_reply_without_version_def)

text \<open>
  Claim C2, amended. \<open>newSession_resume\<close> is \<^verbatim>\<open>newSession\<close> from the moment the
  \<^verbatim>\<open>initialize\<close> call has settled, with whatever outcome and in whatever state.
  Whenever it does not return success it has called \<open>dispose\<close>: the id is no longer
  registered, so that session never becomes Ready, and the process of the session that
  was registered under the id has been signalled unless it was killed or had terminated.
  It returns an error when the call was rejected (timeout, error of the agent, failed
  write, session not available), when \<^verbatim>\<open>protocolVersion\<close> cannot be read from the
  result (\<^verbatim>\<open>null\<close> or \<^verbatim>\<open>undefined\<close>), when a truthy version cannot be converted to
  a string, and, with the unsupported-version error, when the version is truthy and
  \<^verbatim>\<open>parseInt\<close> reads its string as an integer below 1. A result without
  \<^verbatim>\<open>protocolVersion\<close> is accepted: \<^verbatim>\<open>newSession\<close> succeeds and the session it holds
  is Ready. Success is returned only for a resolved call whose version can be read and
  is not a truthy one that \<^verbatim>\<open>parseInt\<close> reads below 1.
\<close>

theorem C2_failed_handshake_is_torn_down:
  "(fst (newSession_resume s sessionId p out) \<noteq> Success sessionId \<longrightarrow>
      snd (newSession_resume s sessionId p out) = dispose s sessionId \<and>
      map_of (sessions (snd (newSession_resume s sessionId p out))) sessionId = None \<and>
      (\<forall>session pr. map_of (sessions s) sessionId = Some session \<longrightarrow>
         map_of (procs s) (process session) = Some pr \<longrightarrow>
         map_of (procs (snd (newSession_resume s sessionId p out))) (process session) =
           Some (if killed pr \<or> exited pr then pr
                 else pr\<lparr>killed := True, signals := signals pr + 1\<rparr>))) \<and>
   (\<forall>err. out = Rejected err \<longrightarrow>
      fst (newSession_resume s sessionId p out) = Failure (InitializeFailed err)) \<and>
   (\<forall>result e. out = Resolved result \<longrightarrow> js_get result ''protocolVersion'' = Inl e \<longrightarrow>
      fst (newSession_resume s sessionId p out) = Failure (InitializeFailed e)) \<and>
   (\<forall>result version e. out = Resolved result \<longrightarrow>
      js_get result ''protocolVersion'' = Inr version \<longrightarrow> truthy version \<longrightarrow>
      js_string_of version = Inl e \<longrightarrow>
      fst (newSession_resume s sessionId p out) = Failure (InitializeFailed e)) \<and>
   (\<forall>result version str. out = Resolved result \<longrightarrow>
      js_get result ''protocolVersion'' = Inr version \<longrightarrow> truthy version \<longrightarrow>
      js_string_of version = Inr str \<longrightarrow> parseInt_below_1 str \<longrightarrow>
      fst (newSession_resume s sessionId p out) = Failure UnsupportedProtocolVersion) \<and>
   (\<forall>result. out = Resolved result \<longrightarrow> js_get result ''protocolVersion'' = Inr None \<longrightarrow>
      fst (newSession_resume s sessionId p out) = Success sessionId \<and>
      (\<forall>session. map_of (sessions s) sessionId = Some session \<longrightarrow> process session = p \<longrightarrow>
         map_option status
           (map_of (sessions (snd (newSession_resume s sessionId p out))) sessionId)
           = Some Ready)) \<and>
   (fst (newSession_resume s sessionId p out) = Success sessionId \<longrightarrow>
      (\<exists>result version. out = Resolved result \<and>
         js_get result ''protocolVersion'' = Inr version \<and>
         \<not> (truthy version \<and>
            (\<exists>str. js_string_of version = Inr str \<and> parseInt_below_1 str))))"
proof -
  let ?r = "newSession_resume s sessionId p out"
  have failed: "snd ?r = dispose s sessionId" if "fst ?r \<noteq> Success sessionId"
    using that
    by (auto simp: newSession_resume_def split: outcome.splits sum.splits if_splits)
  show ?thesis
  proof (intro conjI allI impI)
    show "snd ?r = dispose s sessionId" if "fst ?r \<noteq> Success sessionId"
      by (rule failed [OF that])
    show "map_of (sessions (snd ?r)) sessionId = None" if "fst ?r \<noteq> Success sessionId"
      by (simp add: failed [OF that] dispose_removes)
    show "map_of (procs (snd ?r)) (process session) =
            Some (if killed pr \<or> exited pr then pr
                  else pr\<lparr>killed := True, signals := signals pr + 1\<rparr>)"
      if "fst ?r \<noteq> Success sessionId" and reg: "map_of (sessions s) sessionId = Some session"
        and alive: "map_of (procs s) (process session) = Some pr" for session pr
      using dispose_procs [OF reg alive] by (simp add: failed [OF that(1)])
    show "fst ?r = Failure (InitializeFailed err)" if "out = Rejected err" for err
      using that by (simp add: newSession_resume_def)
    show "fst ?r = Failure (InitializeFailed e)"
      if "out = Resolved result" and "js_get result ''protocolVersion'' = Inl e" for result e
      using that by (simp add: newSession_resume_def)
    show "fst ?r = Failure (InitializeFailed e)"
      if "out = Resolved result" and "js_get result ''protocolVersion'' = Inr version"
        and "truthy version" and "js_string_of version = Inl e" for result version e
      using that by (simp add: newSession_resume_def)
    show "fst ?r = Failure UnsupportedProtocolVersion"
      if "out = Resolved result" and "js_get result ''protocolVersion'' = Inr version"
        and "truthy version" and "js_string_of version = Inr str" and "parseInt_below_1 str"
      for result version str
      using that by (simp add: newSession_resume_def)
    show "fst ?r = Success sessionId"
      if "out = Resolved result" and "js_get result ''protocolVersion'' = Inr None" for result
      using that by (simp add: newSession_resume_def)
    show "map_option status (map_of (sessions (snd ?r)) sessionId) = Some Ready"
      if "out = Resolved result" and "js_get result ''protocolVersion'' = Inr None"
        and "map_of (sessions s) sessionId = Some session" and "process session = p"
      for result session
      using that
      by (simp add: newSession_resume_def update_session_def app_logged_def map_of_map_entry_same)
    show "\<exists>result version. out = Resolved result \<and>
            js_get result ''protocolVersion'' = Inr version \<and>
            \<not> (truthy version \<and>
               (\<exists>str. js_string_of version = Inr str \<and> parseInt_below_1 str))"
      if "fst ?r = Success sessionId"
      using that
      by (auto simp: newSession_resume_def split: outcome.splits sum.splits if_splits)
  qed
qed

text \<open>
  The witness: the answer with version \<^verbatim>\<open>"0"\<close>, the timeout of the
  \<^verbatim>\<open>initialize\<close> call, and the answer whose result is \<^verbatim>\<open>null\<close>. Each time
  \<^verbatim>\<open>newSession\<close> fails, the session is gone and its process has been signalled once.
\<close>

lemma ex_timed_out_eq:
  "timer_fires ex_started 1 =
     ex_started\<lparr>timers := [], pendingRequests := [],
                settled := [(1, Rejected (RequestTimedOut ''initialize'' 15000))]\<rparr>"
  by (simp add: timer_fires_def ex_started_eq settle_def delete_pending_def AList.delete_eq
      ex_sid_def)

theorem C2_failed_handshake_is_torn_down_witness:
  "js_get (js_prop ex_reply_version_0 ''result'') ''protocolVersion'' = Inr (Some (JStr ''0'')) \<and>
   parseInt_below_1 ''0'' \<and>
   newSession_resume (ex_answered ex_reply_version_0) ex_sid 0
       (Resolved (js_prop ex_reply_version_0 ''result''))
     = (Failure UnsupportedProtocolVersion, dispose (ex_answered ex_reply_version_0) ex_sid) \<and>
   map_of (sessions (dispose (ex_answered ex_reply_version_0) ex_sid)) ex_sid = None \<and>
   map_option killed (map_of (procs (dispose (ex_answered ex_reply_version_0) ex_sid)) 0) = Some True \<and>
   map_option signals (map_of (procs (dispose (ex_answered ex_reply_version_0) ex_sid)) 0) = Some 1 \<and>
   newSession_resume (timer_fires ex_started 1) ex_sid 0
       (Rejected (RequestTimedOut ''initialize'' 15000))
     = (Failure (InitializeFailed (RequestTimedOut ''initialize'' 15000)),
        dispose (timer_fires ex_started 1) ex_sid) \<and>
   map_of (sessions (dispose (timer_fires ex_started 1) ex_sid)) ex_sid = None \<and>
   map_option signals (map_of (procs (dispose (timer_fires ex_started 1) ex_sid)) 0) = Some 1 \<and>
   js_get (js_prop ex_reply_null ''result'') ''protocolVersion'' = Inl TypeError \<and>
   newSession_resume (ex_answered ex_reply_null) ex_sid 0
       (Resolved (js_prop ex_reply_null ''result''))
     = (Failure (InitializeFailed TypeError), dispose (ex_answered ex_reply_null) ex_sid) \<and>
   map_of (sessions (dispose (ex_answered ex_reply_null) ex_sid)) ex_sid = None \<and>
   map_option signals (map_of (procs (dispose (ex_answered ex_reply_null) ex_sid)) 0) = Some 1"
proof -
  let ?session = "\<lparr>sid = ex_sid, providerId = ''gemini'', workspaceId = ''w'', cwd = ''/tmp'',
                   process = 0, status = Initializing, protocolVersion = None,
                   capabilities = None\<rparr>"
  let ?pr = "\<lparr>command = ''gemini'', args = [], proc_cwd = ''/tmp'',
               stdin = Some [Request 1 ''initialize'' (Some (default_init ex_env))],
               killed = False, exited = False, signals = 0, wired = Some ex_sid,
               buffer = []\<rparr>"
  have torn:
    "r = (f, dispose s0 ex_sid) \<and> map_of (sessions (dispose s0 ex_sid)) ex_sid = None \<and>
     map_option killed (map_of (procs (dispose s0 ex_sid)) 0) = Some True \<and>
     map_option signals (map_of (procs (dispose s0 ex_sid)) 0) = Some 1"
    if r: "r = newSession_resume s0 ex_sid 0 out" and f: "fst r = f" and ne: "f \<noteq> Success ex_sid"
      and reg: "map_of (sessions s0) ex_sid = Some ?session"
      and alive: "map_of (procs s0) 0 = Some ?pr"
    for r f s0 out
  proof -
    note c2 = C2_failed_handshake_is_torn_down [of s0 ex_sid 0 out, THEN conjunct1, rule_format]
    have a: "fst (newSession_resume s0 ex_sid 0 out) \<noteq> Success ex_sid"
      using r f ne by simp
    have "map_of (procs s0) (process ?session) = Some ?pr" using alive by simp
    from c2 [OF a] this reg have
      "snd r = dispose s0 ex_sid \<and> map_of (sessions (dispose s0 ex_sid)) ex_sid = None \<and>
       map_of (procs (dispose s0 ex_sid)) 0 = Some (?pr\<lparr>killed := True, signals := 1\<rparr>)"
      unfolding r by auto
    with f show ?thesis by (cases r) simp
  qed
  note parts = C2_failed_handshake_is_torn_down [THEN conjunct2]
  have v0: "js_get (js_prop ex_reply_version_0 ''result'') ''protocolVersion'' = Inr (Some (JStr ''0''))"
    by (simp add: ex_reply_version_0_def)
  have b: "parseInt_below_1 ''0''"
    by (simp add: parseInt_below_1_def parseInt_0)
  have f0: "fst (newSession_resume (ex_answered ex_reply_version_0) ex_sid 0
                   (Resolved (js_prop ex_reply_version_0 ''result'')))
              = Failure UnsupportedProtocolVersion"
    using parts [THEN conjunct2, THEN conjunct2, THEN conjunct2, THEN conjunct1, rule_format,
        OF refl v0 _ _ b]
    by simp
  have f1: "fst (newSession_resume (timer_fires ex_started 1) ex_sid 0
                   (Rejected (RequestTimedOut ''initialize'' 15000)))
              = Failure (InitializeFailed (RequestTimedOut ''initialize'' 15000))"
    using parts [THEN conjunct1, rule_format, OF refl] by simp
  have vn: "js_get (js_prop ex_reply_null ''result'') ''protocolVersion'' = Inl TypeError"
    by (simp add: ex_reply_null_def)
  have f2: "fst (newSession_resume (ex_answered ex_reply_null) ex_sid 0
                   (Resolved (js_prop ex_reply_null ''result'')))
              = Failure (InitializeFailed TypeError)"
    using parts [THEN conjunct2, THEN conjunct1, rule_format, OF refl vn] by simp
  have t0: "newSession_resume (ex_answered ex_reply_version_0) ex_sid 0
                (Resolved (js_prop ex_reply_version_0 ''result''))
              = (Failure UnsupportedProtocolVersion, dispose (ex_answered ex_reply_version_0) ex_sid) \<and>
            map_of (sessions (dispose (ex_answered ex_reply_version_0) ex_sid)) ex_sid = None \<and>
            map_option killed (map_of (procs (dispose (ex_answered ex_reply_version_0) ex_sid)) 0) = Some True \<and>
            map_option signals (map_of (procs (dispose (ex_answered ex_reply_version_0) ex_sid)) 0) = Some 1"
    by (rule torn [OF refl f0]) (simp_all add: ex_answered_eq ex_started_eq)
  have reg1: "map_of (sessions (timer_fires ex_started 1)) ex_sid = Some ?session"
    unfolding ex_timed_out_eq by (simp add: ex_started_eq)
  have alive1: "map_of (procs (timer_fires ex_started 1)) 0 = Some ?pr"
    unfolding ex_timed_out_eq by (simp add: ex_started_eq)
  have t1: "newSession_resume (timer_fires ex_started 1) ex_sid 0
                (Rejected (RequestTimedOut ''initialize'' 15000))
              = (Failure (InitializeFailed (RequestTimedOut ''initialize'' 15000)),
                 dispose (timer_fires ex_started 1) ex_sid) \<and>
            map_of (sessions (dispose (timer_fires ex_started 1) ex_sid)) ex_sid = None \<and>
            map_option killed (map_of (procs (dispose (timer_fires ex_started 1) ex_sid)) 0) = Some True \<and>
            map_option signals (map_of (procs (dispose (timer_fires ex_started 1) ex_sid)) 0) = Some 1"
    by (rule torn [OF refl f1 _ reg1 alive1]) simp
  have t2: "newSession_resume (ex_answered ex_reply_null) ex_sid 0
                (Resolved (js_prop ex_reply_null ''result''))
              = (Failure (InitializeFailed TypeError), dispose (ex_answered ex_reply_null) ex_sid) \<and>
            map_of (sessions (dispose (ex_answered ex_reply_null) ex_sid)) ex_sid = None \<and>
            map_option killed (map_of (procs (dispose (ex_answered ex_reply_null) ex_sid)) 0) = Some True \<and>
            map_option signals (map_of (procs (dispose (ex_answered ex_reply_null) ex_sid)) 0) = Some 1"
    by (rule torn [OF refl f2]) (simp_all add: ex_answered_eq ex_started_eq)
  show ?thesis
    using v0 b vn t0 t1 t2 by simp
qed

section \<open>Every registered session can be written to\<close>

text \<open>The invariant holds at the start and every step preserves it.\<close>

lemma stdin_piped_same:
  "sessions s' = sessions s \<Longrightarrow> procs s' = procs s \<Longrightarrow> stdin_piped s' = stdin_piped s"
  by (simp add: stdin_piped_def stdin_of_def)

lemma length_map_entry [simp]: "length (AList.map_entry k f xs) = length xs"
  by (induction xs) auto

lemma map_fst_map_entry: "map fst (AList.map_entry k f xs) = map fst xs"
  by (induction xs) auto

lemma fst_map_entry: "(h, v) \<in> set (AList.map_entry k f xs) \<Longrightarrow> h \<in> fst ` set xs"
proof -
  assume "(h, v) \<in> set (AList.map_entry k f xs)"
  then have "h \<in> set (map fst (AList.map_entry k f xs))" by force
  then show ?thesis by (simp add: map_fst_map_entry)
qed

lemma stdin_piped_procs:
  assumes "stdin_piped s"
      and "\<And>pr. stdin pr \<noteq> None \<Longrightarrow> stdin (f pr) \<noteq> None"
      and "sessions s' = sessions s"
      and "procs s' = AList.map_entry p f (procs s)"
  shows "stdin_piped s'"
proof -
  have a: "stdin_of s' x \<noteq> None" if "stdin_of s x \<noteq> None" for x
    using that assms(2,4)
    by (auto simp: stdin_of_def map_of_map_entry split: option.splits)
  have b: "h < length (procs s)" if "(h, v) \<in> set (AList.map_entry p f (procs s))" for h v
    using fst_map_entry [OF that] assms(1) by (auto simp: stdin_piped_def list_all_iff)
  show ?thesis
    using assms(1,3,4) a b by (auto simp: stdin_piped_def list_all_iff)
qed

lemma set_delete: "set (AList.delete k xs) \<subseteq> set xs"
  by (auto simp: AList.delete_eq)

lemma set_map_entry:
  "(h, v) \<in> set (AList.map_entry k f xs) \<Longrightarrow> (h, v) \<in> set xs \<or> (\<exists>u. (h, u) \<in> set xs \<and> v = f u)"
  by (induction xs) (auto split: if_splits)

lemma stdin_piped_sessions:
  assumes inv: "stdin_piped s"
      and from_old: "\<And>k x. (k, x) \<in> set (sessions s') \<Longrightarrow>
             \<exists>y. (k, y) \<in> set (sessions s) \<and> process x = process y"
      and same: "procs s' = procs s"
  shows "stdin_piped s'"
proof -
  have "stdin_of s' x \<noteq> None" if "(k, x) \<in> set (sessions s')" for k x
  proof -
    from from_old [OF that] obtain y where y: "(k, y) \<in> set (sessions s)" "process x = process y"
      by blast
    from inv y(1) have "stdin_of s y \<noteq> None"
      by (auto simp: stdin_piped_def list_all_iff)
    then show ?thesis using y(2) same by (simp add: stdin_of_def)
  qed
  then show ?thesis
    using inv same by (auto simp: stdin_piped_def list_all_iff)
qed


lemma stdin_piped_update_session:
  "stdin_piped s \<Longrightarrow> (\<And>x. process (f x) = process x) \<Longrightarrow>
   stdin_piped (update_session sessionId p f s)"
  by (rule stdin_piped_sessions [where s = s])
     (auto simp: update_session_def dest!: set_map_entry)

lemma stdin_piped_fields:
  "stdin_piped (s\<lparr>requestIdCounter := a\<rparr>) = stdin_piped s"
  "stdin_piped (s\<lparr>timers := b\<rparr>) = stdin_piped s"
  "stdin_piped (s\<lparr>pendingRequests := c\<rparr>) = stdin_piped s"
  "stdin_piped (s\<lparr>emitted := d\<rparr>) = stdin_piped s"
  "stdin_piped (s\<lparr>error_listeners := n\<rparr>) = stdin_piped s"
  by (rule stdin_piped_same; simp)+

lemma stdin_piped_emit: "stdin_piped (state_after (emit e s)) = stdin_piped s"
  by (simp add: emit_def stdin_piped_fields)

lemma stdin_piped_steps:
  "stdin_piped (app_logged l s) = stdin_piped s"
  "stdin_piped (settle q out s) = stdin_piped s"
  "stdin_piped (clearTimeout h s) = stdin_piped s"
  "stdin_piped (delete_pending k s) = stdin_piped s"
  "stdin_piped (writeLog sessionId m s) = stdin_piped s"
  "stdin_piped (close_writer sessionId s) = stdin_piped s"
  by (rule stdin_piped_same;
      simp add: app_logged_def settle_def clearTimeout_def delete_pending_def
        writeLog_def close_writer_def split: option.splits)+

lemma stdin_piped_invalid_json:
  "stdin_piped (state_after (invalid_json sessionId t s)) = stdin_piped s"
  by (simp add: invalid_json_def stdin_piped_emit stdin_piped_steps)

lemma stdin_piped_stdin_write: "stdin_piped s \<Longrightarrow> stdin_piped (stdin_write p w s)"
  by (rule stdin_piped_procs [where s = s and p = p
        and f = "\<lambda>pr. pr\<lparr>stdin := map_option (\<lambda>ws. ws @ [w]) (stdin pr)\<rparr>"])
     (auto simp: stdin_write_def)

lemma stdin_piped_set_buffer: "stdin_piped s \<Longrightarrow> stdin_piped (set_buffer p b s)"
  by (rule stdin_piped_procs [where s = s and p = p and f = "\<lambda>x. x\<lparr>buffer := b\<rparr>"])
     (auto simp: set_buffer_def)

lemma stdin_piped_kill_process:
  assumes inv: "stdin_piped s"
  shows "stdin_piped (kill_process p s)"
proof (cases "\<exists>pr. map_of (procs s) p = Some pr \<and> \<not> killed pr")
  case True
  then have a: "procs (kill_process p s) = AList.map_entry p proc_kill (procs s)"
    by (auto simp: kill_process_def)
  have b: "sessions (kill_process p s) = sessions s"
    by (simp add: kill_process_def split: option.splits)
  have c: "stdin pr \<noteq> None \<Longrightarrow> stdin (proc_kill pr) \<noteq> None" for pr
    by (simp add: proc_kill_def)
  show ?thesis
    by (rule stdin_piped_procs [where s = s and p = p and f = proc_kill, OF inv c b a])
next
  case False
  then have "kill_process p s = s"
    by (auto simp: kill_process_def split: option.splits)
  with inv show ?thesis by simp
qed

lemma stdin_piped_rpcCall:
  "stdin_piped s \<Longrightarrow> rpcCall s sessionId method params ms = Inr (i, s') \<Longrightarrow> stdin_piped s'"
  by (auto simp: rpcCall_def Let_def stdin_piped_steps stdin_piped_fields
      split: option.splits intro!: stdin_piped_stdin_write)

lemma stdin_piped_handleMessage:
  "stdin_piped s \<Longrightarrow> stdin_piped (state_after (handleMessage s sessionId msg))"
  by (auto simp: handleMessage_def Let_def stdin_piped_steps stdin_piped_emit
      split: sum.splits option.splits bool.splits if_splits)

lemma stdin_piped_handleLine:
  assumes inv: "stdin_piped s"
  shows "stdin_piped (state_after (handleLine parse sessionId line s))"
proof (cases "line_fate line")
  case Blank
  with inv show ?thesis by (simp add: handleLine_def)
next
  case (Oversized n)
  with inv show ?thesis by (simp add: handleLine_def stdin_piped_steps)
next
  case (Parsed t)
  show ?thesis
  proof (cases "parse t")
    case None
    with Parsed inv show ?thesis by (simp add: handleLine_def stdin_piped_invalid_json)
  next
    case (Some msg)
    from inv have hm: "stdin_piped (state_after (handleMessage s sessionId msg))"
      by (rule stdin_piped_handleMessage)
    show ?thesis
    proof (cases "handleMessage s sessionId msg")
      case (Inl thrown)
      obtain e s' where "thrown = (e, s')" by (cases thrown)
      with Inl hm Parsed Some show ?thesis
        by (simp add: handleLine_def stdin_piped_invalid_json)
    next
      case (Inr s')
      with hm Parsed Some show ?thesis by (simp add: handleLine_def)
    qed
  qed
qed

lemma stdin_piped_handleLines:
  "stdin_piped s \<Longrightarrow> stdin_piped (state_after (handleLines parse sessionId ls s))"
proof (induction ls arbitrary: s)
  case Nil
  then show ?case by simp
next
  case (Cons l ls)
  from Cons.prems have a: "stdin_piped (state_after (handleLine parse sessionId l s))"
    by (rule stdin_piped_handleLine)
  show ?case
  proof (cases "handleLine parse sessionId l s")
    case (Inl thrown)
    with a show ?thesis by simp
  next
    case (Inr s')
    with a Cons.IH [of s'] show ?thesis by simp
  qed
qed

lemma stdin_piped_reject_pending:
  "stdin_piped s \<Longrightarrow> stdin_piped (reject_pending sessionId ps s)"
  by (induction ps arbitrary: s) (auto simp: stdin_piped_steps)

lemma stdin_piped_dispose: "stdin_piped s \<Longrightarrow> stdin_piped (dispose s sessionId)"
proof (cases "map_of (sessions s) sessionId")
  case None
  assume "stdin_piped s"
  with None show ?thesis by (simp add: dispose_def)
next
  case (Some session)
  assume inv: "stdin_piped s"
  let ?s3 = "close_writer sessionId
               (reject_pending sessionId (pendingRequests (kill_process (process session) s))
                  (kill_process (process session) s))"
  have s3: "stdin_piped ?s3"
    using inv by (simp add: stdin_piped_steps stdin_piped_reject_pending stdin_piped_kill_process)
  have "stdin_piped (?s3\<lparr>sessions := AList.delete sessionId (sessions ?s3)\<rparr>)"
    by (rule stdin_piped_sessions [OF s3]) (auto dest: set_delete [THEN subsetD])
  then show ?thesis
    using Some by (simp add: dispose_def Let_def stdin_piped_steps)
qed

lemma set_update: "set (AList.update k v xs) \<subseteq> insert (k, v) (set xs)"
  by (induction xs) auto

lemma stdin_piped_spawn:
  assumes inv: "stdin_piped s" and pipe: "stdin pr \<noteq> None"
  shows "stdin_piped (s\<lparr>procs := procs s @ [(length (procs s), pr)],
                        sessions := AList.update sessionId
                          (session\<lparr>process := length (procs s)\<rparr>) (sessions s)\<rparr>)"
    (is "stdin_piped ?s'")
proof -
  have fresh: "map_of (procs s) (length (procs s)) = None"
    using inv by (force simp: stdin_piped_def list_all_iff map_of_eq_None_iff)
  have old: "stdin_of ?s' x \<noteq> None" if "stdin_of s x \<noteq> None" for x
    using that by (auto simp: stdin_of_def map_add_def split: option.splits)
  have new: "stdin_of ?s' (session\<lparr>process := length (procs s)\<rparr>) \<noteq> None"
    using fresh pipe by (simp add: stdin_of_def map_add_def)
  have "stdin_of ?s' x \<noteq> None" if "(k, x) \<in> set (sessions ?s')" for k x
  proof -
    from that set_update
    have "(k, x) = (sessionId, session\<lparr>process := length (procs s)\<rparr>) \<or> (k, x) \<in> set (sessions s)"
      by fastforce
    then show ?thesis
      using new old inv by (auto simp: stdin_piped_def list_all_iff)
  qed
  moreover have "h < length (procs ?s')" if "(h, v) \<in> set (procs ?s')" for h v
    using that inv by (auto simp: stdin_piped_def list_all_iff less_Suc_eq)
  ultimately show ?thesis
    by (auto simp: stdin_piped_def list_all_iff)
qed

lemma stdin_piped_setupLogWriter: "stdin_piped (setupLogWriter e sessionId s) = stdin_piped s"
  by (rule stdin_piped_same; simp add: setupLogWriter_def app_logged_def split: option.splits)

lemma stdin_piped_wireStdio: "stdin_piped s \<Longrightarrow> stdin_piped (wireStdio sessionId p s)"
proof (cases "map_of (sessions s) sessionId")
  case None
  assume "stdin_piped s"
  with None show ?thesis by (simp add: wireStdio_def)
next
  case (Some x)
  assume inv: "stdin_piped s"
  show ?thesis
    by (rule stdin_piped_procs [where s = s and p = p
          and f = "\<lambda>x. x\<lparr>wired := Some sessionId, buffer := []\<rparr>", OF inv])
       (simp_all add: wireStdio_def Some)
qed

lemma stdin_piped_newSession_resume:
  "stdin_piped s \<Longrightarrow> stdin_piped (snd (newSession_resume s sessionId p out))"
  by (auto simp: newSession_resume_def stdin_piped_dispose stdin_piped_steps
      stdin_piped_update_session split: outcome.splits sum.splits)

lemma stdin_piped_newSession_begin:
  assumes inv: "stdin_piped s"
  shows "stdin_piped (snd (newSession_begin e s a))"
proof -
  define sessionId where "sessionId = a_providerId a @ ''-'' @ a_workspaceId a @ ''-'' @ show_nat (now e)"
  define spec where "spec = (case a_spawnOverride a of Some x \<Rightarrow> Some x
                             | None \<Rightarrow> getProviderSpawnSpec e (a_providerId a))"
  define s2 where "s2 c as =
      wireStdio sessionId (length (procs s))
         (setupLogWriter e sessionId
            (s\<lparr>procs := procs s @ [(length (procs s),
                     \<lparr>command = c, args = as, proc_cwd = a_cwd a, stdin = Some [],
                        killed = False, exited = False, signals = 0, wired = None,
                        buffer = []\<rparr>)],
                sessions := AList.update sessionId
                  \<lparr>sid = sessionId, providerId = a_providerId a, workspaceId = a_workspaceId a,
                     cwd = a_cwd a, process = length (procs s), status = Initializing,
                     protocolVersion = None, capabilities = None\<rparr> (sessions s)\<rparr>))" for c as
  define initParams where "initParams = (if truthy (a_init a) then a_init a else Some (default_init e))"
  have spawned: "stdin_piped (s2 c as)" for c as
    unfolding s2_def
    using stdin_piped_spawn [OF inv, where sessionId = sessionId
        and pr = "\<lparr>command = c, args = as, proc_cwd = a_cwd a, stdin = Some [],
                    killed = False, exited = False, signals = 0, wired = None, buffer = []\<rparr>"
        and session = "\<lparr>sid = sessionId, providerId = a_providerId a, workspaceId = a_workspaceId a,
                     cwd = a_cwd a, process = length (procs s), status = Initializing,
                     protocolVersion = None, capabilities = None\<rparr>"]
    by (simp add: stdin_piped_wireStdio stdin_piped_setupLogWriter)
  have unfold: "newSession_begin e s a =
      (case spec of
         None \<Rightarrow> (Returned (Failure (ProviderNotFound (a_providerId a))), s)
       | Some sp \<Rightarrow>
          (case spawn_throws e of
             Some m \<Rightarrow> (Returned (Failure (SpawnFailed (SpawnThrew m))), s)
           | None \<Rightarrow>
              (case rpcCall (s2 (spec_command sp) (case spec_args sp of None \<Rightarrow> [] | Some xs \<Rightarrow> xs))
                      sessionId ''initialize'' initParams (initializeMs e) of
                 Inl err \<Rightarrow>
                   (case newSession_resume
                           (s2 (spec_command sp) (case spec_args sp of None \<Rightarrow> [] | Some xs \<Rightarrow> xs))
                           sessionId (length (procs s)) (Rejected err) of
                      (r, s3) \<Rightarrow> (Returned r, s3))
               | Inr (i, s3) \<Rightarrow> (Awaiting sessionId (length (procs s)) i, s3))))"
    by (simp only: newSession_begin_def Let_def sessionId_def spec_def s2_def initParams_def)
  show ?thesis
  proof (cases spec)
    case None
    with inv show ?thesis by (simp add: unfold)
  next
    case (Some sp)
    let ?s2 = "s2 (spec_command sp) (case spec_args sp of None \<Rightarrow> [] | Some xs \<Rightarrow> xs)"
    show ?thesis
    proof (cases "spawn_throws e")
      case (Some m)
      with inv \<open>spec = Some sp\<close> show ?thesis by (simp add: unfold)
    next
      case None
      show ?thesis
      proof (cases "rpcCall ?s2 sessionId ''initialize'' initParams (initializeMs e)")
        case (Inl err)
        have "stdin_piped (snd (newSession_resume ?s2 sessionId (length (procs s)) (Rejected err)))"
          by (rule stdin_piped_newSession_resume [OF spawned])
        with Inl None \<open>spec = Some sp\<close> show ?thesis
          by (auto simp: unfold split: prod.splits)
      next
        case (Inr r)
        obtain i s3 where r: "r = (i, s3)" by (cases r)
        have "stdin_piped s3"
          using stdin_piped_rpcCall [OF spawned] Inr r by blast
        with Inr r None \<open>spec = Some sp\<close> show ?thesis
          by (simp add: unfold)
      qed
    qed
  qed
qed

lemma stdin_piped_prompt_begin:
  "stdin_piped s \<Longrightarrow> stdin_piped (snd (prompt_begin e s sessionId promptText))"
  by (auto simp: prompt_begin_def split: option.splits sum.splits dest: stdin_piped_rpcCall)

lemma stdin_piped_cancel: "stdin_piped s \<Longrightarrow> stdin_piped (snd (cancel s sessionId werr))"
  by (auto simp: cancel_def rpcNotify_def stdin_piped_steps stdin_piped_stdin_write
      split: option.splits sum.splits)

lemma stdin_piped_on_stdout:
  "stdin_piped s \<Longrightarrow> stdin_piped (state_after (on_stdout parse s p chunk))"
  by (auto simp: on_stdout_def stdin_piped_handleLines stdin_piped_set_buffer
      split: option.splits prod.splits)

lemma stdin_piped_on_stderr: "stdin_piped s \<Longrightarrow> stdin_piped (on_stderr s p chunk)"
  by (auto simp: on_stderr_def stdin_piped_steps stdin_piped_emit split: option.splits)

lemma stdin_piped_exited:
  assumes inv: "stdin_piped s"
  shows "stdin_piped (s\<lparr>procs := AList.map_entry p (\<lambda>x. x\<lparr>exited := True\<rparr>) (procs s)\<rparr>)"
  by (rule stdin_piped_procs [where s = s and p = p and f = "\<lambda>x. x\<lparr>exited := True\<rparr>", OF inv])
     simp_all

lemma stdin_piped_on_exit: "stdin_piped s \<Longrightarrow> stdin_piped (on_exit s p code signal)"
  by (auto simp: on_exit_def Let_def emit_notification stdin_piped_dispose stdin_piped_steps
      stdin_piped_fields stdin_piped_update_session stdin_piped_exited split: option.splits)

lemma stdin_piped_on_error:
  "stdin_piped s \<Longrightarrow> stdin_piped (state_after (on_error s p msg))"
  by (auto simp: on_error_def stdin_piped_steps stdin_piped_emit stdin_piped_update_session
      split: option.splits)

lemma stdin_piped_addListener_error: "stdin_piped (addListener_error s) = stdin_piped s"
  by (simp add: addListener_error_def stdin_piped_fields)

lemma stdin_piped_timer_fires: "stdin_piped s \<Longrightarrow> stdin_piped (timer_fires s h)"
  by (auto simp: timer_fires_def stdin_piped_steps stdin_piped_fields split: option.splits)

lemma stdin_piped_write_failed:
  "stdin_piped s \<Longrightarrow> stdin_piped (rpcCall_write_failed s sessionId i err)"
  by (simp add: rpcCall_write_failed_def stdin_piped_steps)

lemma reachable_stdin_piped: "reachable s \<Longrightarrow> stdin_piped s"
proof (induction rule: reachable.induct)
  case start
  show ?case by (simp add: stdin_piped_def empty_service_def)
qed (simp_all add: stdin_piped_newSession_begin stdin_piped_newSession_resume
      stdin_piped_prompt_begin stdin_piped_cancel stdin_piped_dispose stdin_piped_on_stdout
      stdin_piped_on_stderr stdin_piped_on_exit stdin_piped_on_error stdin_piped_timer_fires
      stdin_piped_write_failed stdin_piped_addListener_error)

lemma reachable_session_has_stdin:
  "reachable s \<Longrightarrow> map_of (sessions s) sessionId = Some session \<Longrightarrow>
   \<exists>ws. stdin_of s session = Some ws"
proof -
  assume "reachable s" and a: "map_of (sessions s) sessionId = Some session"
  from \<open>reachable s\<close> have "stdin_piped s" by (rule reachable_stdin_piped)
  moreover from a have "(sessionId, session) \<in> set (sessions s)" by (rule map_of_SomeD)
  ultimately show ?thesis by (auto simp: stdin_piped_def list_all_iff)
qed

section \<open>cancel\<close>

text \<open>
  Claim C10. \<open>cancel\<close> looks the session up and nothing else: the status is not
  read. In every reachable state it fails with session-not-found exactly when the id is
  not registered, and then changes nothing. For a registered session, in whatever
  status, the process has its stdin stream, \<open>cancel\<close> writes the \<^verbatim>\<open>cancel\<close>
  notification to it, leaves the pending map, the request counter, the timers and the
  registry as they were, and its result is success when the write callback reports the
  flush and the write error otherwise.
\<close>

theorem C10_cancel_needs_only_a_registered_session:
  assumes "reachable s"
  shows
  "(fst (cancel s sessionId werr) = Failure SessionNotFound \<longleftrightarrow> map_of (sessions s) sessionId = None) \<and>
   (map_of (sessions s) sessionId = None \<longrightarrow> cancel s sessionId werr = (Failure SessionNotFound, s)) \<and>
   (\<forall>session. map_of (sessions s) sessionId = Some session \<longrightarrow>
      (\<exists>ws. stdin_of s session = Some ws \<and>
            stdin_of (snd (cancel s sessionId werr)) session
              = Some (ws @ [Notification ''cancel'' (Some (JObj []))])) \<and>
      pendingRequests (snd (cancel s sessionId werr)) = pendingRequests s \<and>
      requestIdCounter (snd (cancel s sessionId werr)) = requestIdCounter s \<and>
      timers (snd (cancel s sessionId werr)) = timers s \<and>
      sessions (snd (cancel s sessionId werr)) = sessions s \<and>
      fst (cancel s sessionId werr) =
        (case werr of None \<Rightarrow> Success () | Some m \<Rightarrow> Failure (CallFailed (WriteError m))))"
proof (intro conjI allI impI)
  show "(fst (cancel s sessionId werr) = Failure SessionNotFound) = (map_of (sessions s) sessionId = None)"
    by (auto simp: cancel_def rpcNotify_def split: option.splits)
  show "cancel s sessionId werr = (Failure SessionNotFound, s)" if "map_of (sessions s) sessionId = None"
    using that by (simp add: cancel_def)
next
  fix session
  assume a: "map_of (sessions s) sessionId = Some session"
  from reachable_session_has_stdin [OF assms a]
  obtain ws where b: "stdin_of s session = Some ws" by blast
  let ?s' = "writeLog sessionId (LogNotify ''cancel'' (Some (JObj [])))
              (stdin_write (process session) (Notification ''cancel'' (Some (JObj []))) s)"
  have c: "snd (cancel s sessionId werr) = ?s'"
    using a b by (simp add: cancel_def rpcNotify_def split: option.splits)
  have "stdin_of (snd (cancel s sessionId werr)) session = Some (ws @ [Notification ''cancel'' (Some (JObj []))])"
    using b unfolding c
    by (auto simp: stdin_of_def writeLog_def stdin_write_def map_of_map_entry_same split: option.splits)
  with b show "\<exists>ws. stdin_of s session = Some ws \<and>
            stdin_of (snd (cancel s sessionId werr)) session
              = Some (ws @ [Notification ''cancel'' (Some (JObj []))])"
    by blast
  show "pendingRequests (snd (cancel s sessionId werr)) = pendingRequests s"
    unfolding c by (simp add: writeLog_def stdin_write_def split: option.splits)
  show "requestIdCounter (snd (cancel s sessionId werr)) = requestIdCounter s"
    unfolding c by (simp add: writeLog_def stdin_write_def split: option.splits)
  show "timers (snd (cancel s sessionId werr)) = timers s"
    unfolding c by (simp add: writeLog_def stdin_write_def split: option.splits)
  show "sessions (snd (cancel s sessionId werr)) = sessions s"
    unfolding c by (simp add: writeLog_def stdin_write_def split: option.splits)
  show "fst (cancel s sessionId werr) =
        (case werr of None \<Rightarrow> Success () | Some m \<Rightarrow> Failure (CallFailed (WriteError m)))"
    using a b by (simp add: cancel_def rpcNotify_def split: option.splits)
qed

text \<open>
  The witness: the session whose process has reported an error, with the listener of
  the IPC layer attached, is cancelled.
\<close>

lemma ex_errored_eq:
  "ex_errored =
     ex_started\<lparr>sessions :=
        [(ex_sid, \<lparr>sid = ex_sid, providerId = ''gemini'', workspaceId = ''w'', cwd = ''/tmp'',
                   process = 0, status = Error, protocolVersion = None,
                   capabilities = None\<rparr>)],
      emitted := [EvError ex_sid (ProcessError ''read ECONNRESET'')],
      applog := [ErrProcess ex_sid ''read ECONNRESET''],
      error_listeners := 1\<rparr>"
  by (simp add: ex_errored_def ex_heard_def addListener_error_def on_error_def emit_def
      update_session_def app_logged_def ex_started_eq)

theorem C10_cancel_needs_only_a_registered_session_witness:
  "reachable ex_errored \<and>
   map_option status (map_of (sessions ex_errored) ex_sid) = Some Error \<and>
   fst (cancel ex_errored ex_sid None) = Success () \<and>
   fst (cancel ex_errored ex_sid (Some ''write EPIPE''))
     = Failure (CallFailed (WriteError ''write EPIPE'')) \<and>
   map_option stdin (map_of (procs (snd (cancel ex_errored ex_sid None))) 0) =
     Some (Some [Request 1 ''initialize'' (Some (default_init ex_env)),
                 Notification ''cancel'' (Some (JObj []))]) \<and>
   pendingRequests (snd (cancel ex_errored ex_sid None)) = pendingRequests ex_errored \<and>
   map_of (sessions ex_errored) ''no-such-session'' = None \<and>
   cancel ex_errored ''no-such-session'' None = (Failure SessionNotFound, ex_errored)"
proof -
  let ?session = "\<lparr>sid = ex_sid, providerId = ''gemini'', workspaceId = ''w'', cwd = ''/tmp'',
                   process = 0, status = Error, protocolVersion = None,
                   capabilities = None\<rparr>"
  let ?ws = "[Request 1 ''initialize'' (Some (default_init ex_env))]"
  have r: "reachable ex_errored"
    unfolding ex_errored_def ex_heard_def ex_started_def
    by (intro reachable.on_error reachable.addListener_error reachable.newSession_begin
        reachable.start)
  have reg: "map_of (sessions ex_errored) ex_sid = Some ?session"
    by (simp add: ex_errored_eq)
  have pipe: "stdin_of ex_errored ?session = Some ?ws"
    by (simp add: stdin_of_def ex_errored_eq ex_started_eq)
  have absent: "map_of (sessions ex_errored) ''no-such-session'' = None"
    by (simp add: ex_errored_eq ex_sid_def)
  note c10 = C10_cancel_needs_only_a_registered_session [OF r]
  have flushed:
    "stdin_of (snd (cancel ex_errored ex_sid None)) ?session
       = Some (?ws @ [Notification ''cancel'' (Some (JObj []))]) \<and>
     pendingRequests (snd (cancel ex_errored ex_sid None)) = pendingRequests ex_errored \<and>
     fst (cancel ex_errored ex_sid None) = Success ()"
    using c10 [of ex_sid None] reg pipe by simp
  have failed:
    "fst (cancel ex_errored ex_sid (Some ''write EPIPE''))
       = Failure (CallFailed (WriteError ''write EPIPE''))"
    using c10 [of ex_sid "Some ''write EPIPE''"] reg pipe by simp
  have missing: "cancel ex_errored ''no-such-session'' None = (Failure SessionNotFound, ex_errored)"
    using c10 [of "''no-such-session''" None] absent by simp
  have pipe': "map_option stdin (map_of (procs (snd (cancel ex_errored ex_sid None))) 0)
                 = Some (Some (?ws @ [Notification ''cancel'' (Some (JObj []))]))"
    using flushed by (auto simp: stdin_of_def split: option.splits)
  show ?thesis
    using r reg flushed failed missing absent pipe' by simp
qed

section \<open>Framing\<close>

text \<open>Splitting at line feeds loses nothing but the line feeds, and distributes over appending.\<close>

lemma split_nl_nonempty: "split_nl t \<noteq> []"
  by (induction t) (auto split: list.splits)

lemma split_nl_concat: "concat (split_nl t) = filter (\<lambda>c. c \<noteq> 10) t"
  by (induction t) (auto split: list.splits)

lemma split_nl_segments: "l \<in> set (split_nl t) \<Longrightarrow> 10 \<notin> set l"
  by (induction t arbitrary: l) (auto split: list.splits if_splits)

lemma split_nl_no_newline: "10 \<notin> set t \<Longrightarrow> split_nl t = [t]"
  by (induction t) auto


lemma split_nl_append:
  "split_nl (a @ b) = butlast (split_nl a) @ split_nl (last (split_nl a) @ b)"
proof (induction a)
  case Nil
  show ?case by simp
next
  case (Cons c cs)
  obtain l ls where s: "split_nl cs = l # ls"
    using split_nl_nonempty [of cs] by (cases "split_nl cs") auto
  show ?case
  proof (cases "c = 10")
    case True
    then show ?thesis using Cons.IH split_nl_nonempty [of cs] by simp
  next
    case False
    show ?thesis
    proof (cases "ls = []")
      case True
      with False s Cons.IH show ?thesis by simp
    next
      case ne: False
      with False s Cons.IH show ?thesis by simp
    qed
  qed
qed

lemma last_split_nl_no_newline: "10 \<notin> set (last (split_nl t))"
  using split_nl_segments [of "last (split_nl t)" t] split_nl_nonempty [of t] by simp

lemma frame_append:
  "frame (a @ b) = (fst (frame a) @ fst (frame (snd (frame a) @ b)), snd (frame (snd (frame a) @ b)))"
  by (simp add: frame_def split_nl_append [of a b] butlast_append split_nl_nonempty)

text \<open>
  On the decoded text the framer does not depend on the chunk boundaries: feeding the
  chunks one by one frames the concatenation of their decodings, and the lines together
  with the leftover are that text without its line feeds.
\<close>

lemma feed_all_frame:
  "10 \<notin> set buf \<Longrightarrow> feed_all buf chunks = frame (buf @ concat (map buffer_toString chunks))"
proof (induction chunks arbitrary: buf)
  case Nil
  then show ?case by (simp add: frame_def split_nl_no_newline)
next
  case (Cons c cs)
  let ?a = "buf @ buffer_toString c"
  let ?r = "concat (map buffer_toString cs)"
  have nl: "10 \<notin> set (snd (frame ?a))"
    by (simp add: frame_def last_split_nl_no_newline)
  have step: "feed_all buf (c # cs) =
          (fst (frame ?a) @ fst (feed_all (snd (frame ?a)) cs), snd (feed_all (snd (frame ?a)) cs))"
    by (simp add: feed_def split: prod.splits)
  have "frame (?a @ ?r) = (fst (frame ?a) @ fst (frame (snd (frame ?a) @ ?r)),
                           snd (frame (snd (frame ?a) @ ?r)))"
    by (rule frame_append)
  then have "frame (buf @ concat (map buffer_toString (c # cs)))
               = (fst (frame ?a) @ fst (frame (snd (frame ?a) @ ?r)),
                  snd (frame (snd (frame ?a) @ ?r)))"
    by simp
  then show ?case
    unfolding step Cons.IH [OF nl] by simp
qed

lemma concat_butlast_last: "xs \<noteq> [] \<Longrightarrow> concat (butlast xs) @ last xs = concat xs"
  by (induction xs) auto

lemma feed_all_keeps_text:
  "concat (fst (feed_all [] chunks)) @ snd (feed_all [] chunks)
     = filter (\<lambda>c. c \<noteq> 10) (concat (map buffer_toString chunks))"
  by (simp add: feed_all_frame frame_def concat_butlast_last split_nl_nonempty split_nl_concat)



text \<open>
  Claim C4. For every split of a byte stream into chunks the extracted lines and the
  leftover should be the same and lose no byte. The handler decodes each chunk on its
  own (\<^verbatim>\<open>chunk.toString('utf8')\<close>), so a character whose bytes fall into two chunks
  is decoded as two replacement characters: the stream \<^verbatim>\<open>C3 A9 0A\<close> (one line of
  one character, U+00E9) gives the line \<open>[0xE9]\<close> in one chunk and the line
  \<open>[0xFFFD, 0xFFFD]\<close> when the chunk boundary falls after the first byte.
\<close>

theorem C4_split_character_changes_the_lines:
  "concat [[0xC3, 0xA9, 0x0A]] = concat [[0xC3], [0xA9, 0x0A :: byte]] \<and>
   feed_all [] [[0xC3, 0xA9, 0x0A]] = ([[0xE9]], []) \<and>
   feed_all [] [[0xC3], [0xA9, 0x0A]] = ([[0xFFFD, 0xFFFD]], [])"
  by (simp add: feed_def frame_def buffer_toString_def utf8_init_def utf8_step_def
      utf8_lead_def utf16_units_def)

section \<open>The lines of a stream\<close>




















section \<open>Oversized and malformed lines\<close>



















end
